theory Spec2Isabelle
  imports Complex_Main
begin

section \<open>The text editor of tabi-tabi-os: data model\<close>

text \<open>
  The component \<open>TextEditor\<close> of \<open>src/components/apps/textEditor.tsx\<close> is a React function
  component. Its hooks (\<open>useState\<close>, \<open>useRef\<close>), the browser objects it touches (timers,
  the persistent store, the clipboard, downloads) and the React commit cycle (effects run
  after a render when one of their dependencies changed) are made explicit as one record
  and functions on it.
\<close>

datatype TextAlign = Left | Center | Right | Justify

text \<open>
  Modelled from the spec: the interface \<open>EditorSettings\<close> is declared in
  \<open>atoms/textEditorAtom\<close>, which is not among the sources; the fields are those of the
  data-model table (and those the component reads in its markup). \<open>lineHeight\<close> is a
  JavaScript number that the component never computes with.
\<close>

record EditorSettings =
  fontFamily :: string
  fontSize :: int
  lineHeight :: real
  isBold :: bool
  isItalic :: bool
  isUnderline :: bool
  textAlign :: TextAlign
  textColor :: string
  backgroundColor :: string
  wordWrap :: bool
  tabSize :: int
  autoSaveInterval :: int

text \<open>
  \<open>updateSetting<K extends keyof EditorSettings>(key: K, value: EditorSettings[K])\<close>
  takes a key together with a value of that key's type: a tagged value.
\<close>

datatype SettingKey =
  KFontFamily | KFontSize | KLineHeight | KIsBold | KIsItalic | KIsUnderline
  | KTextAlign | KTextColor | KBackgroundColor | KWordWrap | KTabSize | KAutoSaveInterval

datatype Setting =
  FontFamily string | FontSize int | LineHeight real | IsBold bool | IsItalic bool
  | IsUnderline bool | TextAlignment TextAlign | TextColor string | BackgroundColor string
  | WordWrap bool | TabSize int | AutoSaveInterval int

fun keyOf :: "Setting \<Rightarrow> SettingKey" where
  "keyOf (FontFamily _) = KFontFamily"
| "keyOf (FontSize _) = KFontSize"
| "keyOf (LineHeight _) = KLineHeight"
| "keyOf (IsBold _) = KIsBold"
| "keyOf (IsItalic _) = KIsItalic"
| "keyOf (IsUnderline _) = KIsUnderline"
| "keyOf (TextAlignment _) = KTextAlign"
| "keyOf (TextColor _) = KTextColor"
| "keyOf (BackgroundColor _) = KBackgroundColor"
| "keyOf (WordWrap _) = KWordWrap"
| "keyOf (TabSize _) = KTabSize"
| "keyOf (AutoSaveInterval _) = KAutoSaveInterval"

text \<open>Reading \<open>settings[key]\<close>.\<close>

fun readSetting :: "SettingKey \<Rightarrow> EditorSettings \<Rightarrow> Setting" where
  "readSetting KFontFamily s = FontFamily (fontFamily s)"
| "readSetting KFontSize s = FontSize (fontSize s)"
| "readSetting KLineHeight s = LineHeight (lineHeight s)"
| "readSetting KIsBold s = IsBold (isBold s)"
| "readSetting KIsItalic s = IsItalic (isItalic s)"
| "readSetting KIsUnderline s = IsUnderline (isUnderline s)"
| "readSetting KTextAlign s = TextAlignment (textAlign s)"
| "readSetting KTextColor s = TextColor (textColor s)"
| "readSetting KBackgroundColor s = BackgroundColor (backgroundColor s)"
| "readSetting KWordWrap s = WordWrap (wordWrap s)"
| "readSetting KTabSize s = TabSize (tabSize s)"
| "readSetting KAutoSaveInterval s = AutoSaveInterval (autoSaveInterval s)"

text \<open>The updater \<open>(prev) => ({ ...prev, [key]: value })\<close> of \<open>updateSetting\<close>.\<close>

fun spread :: "Setting \<Rightarrow> EditorSettings \<Rightarrow> EditorSettings" where
  "spread (FontFamily v) prev = prev\<lparr>fontFamily := v\<rparr>"
| "spread (FontSize v) prev = prev\<lparr>fontSize := v\<rparr>"
| "spread (LineHeight v) prev = prev\<lparr>lineHeight := v\<rparr>"
| "spread (IsBold v) prev = prev\<lparr>isBold := v\<rparr>"
| "spread (IsItalic v) prev = prev\<lparr>isItalic := v\<rparr>"
| "spread (IsUnderline v) prev = prev\<lparr>isUnderline := v\<rparr>"
| "spread (TextAlignment v) prev = prev\<lparr>textAlign := v\<rparr>"
| "spread (TextColor v) prev = prev\<lparr>textColor := v\<rparr>"
| "spread (BackgroundColor v) prev = prev\<lparr>backgroundColor := v\<rparr>"
| "spread (WordWrap v) prev = prev\<lparr>wordWrap := v\<rparr>"
| "spread (TabSize v) prev = prev\<lparr>tabSize := v\<rparr>"
| "spread (AutoSaveInterval v) prev = prev\<lparr>autoSaveInterval := v\<rparr>"

section \<open>The persistent store and the atoms module\<close>

text \<open>
  A stored value is a content string or a settings record; the serialisation is the
  store's own business.
\<close>

datatype Stored = StoredContent string | StoredSettings EditorSettings

type_synonym Store = "string \<rightharpoonup> Stored"

text \<open>
  The constants that the component imports from \<open>atoms/textEditorAtom\<close> (not among the
  sources) are parameters of the model.
\<close>

record Atoms =
  TEXT_EDITOR_STORAGE_KEY :: string
  TEXT_EDITOR_SETTINGS_KEY :: string
  defaultEditorSettings :: EditorSettings

text \<open>The template literals \<open>`${TEXT_EDITOR_STORAGE_KEY}_${editorId}`\<close> and
  \<open>`${TEXT_EDITOR_SETTINGS_KEY}_${editorId}`\<close>.\<close>

definition contentKey :: "Atoms \<Rightarrow> string \<Rightarrow> string" where
  "contentKey A eid = TEXT_EDITOR_STORAGE_KEY A @ ''_'' @ eid"

definition settingsKey :: "Atoms \<Rightarrow> string \<Rightarrow> string" where
  "settingsKey A eid = TEXT_EDITOR_SETTINGS_KEY A @ ''_'' @ eid"

text \<open>
  Modelled from the spec: \<open>loadEditorContent\<close> of \<open>atoms/textEditorAtom\<close> is not among the
  sources. It reads the content string stored for the editor instance, under the key the
  component saves it to; nothing is returned when no content string is stored there.
\<close>

definition loadEditorContent :: "Atoms \<Rightarrow> Store \<Rightarrow> string \<Rightarrow> string option" where
  "loadEditorContent A st eid =
     (case st (contentKey A eid) of Some (StoredContent c) \<Rightarrow> Some c | _ \<Rightarrow> None)"

text \<open>
  Modelled from the spec: \<open>loadEditorSettings\<close> of \<open>atoms/textEditorAtom\<close> is not among
  the sources. It reads the settings record stored for the editor instance; absence yields
  the fixed default settings record.
\<close>

definition loadEditorSettings :: "Atoms \<Rightarrow> Store \<Rightarrow> string \<Rightarrow> EditorSettings" where
  "loadEditorSettings A st eid =
     (case st (settingsKey A eid) of
        Some (StoredSettings s) \<Rightarrow> s
      | _ \<Rightarrow> defaultEditorSettings A)"

text \<open>
  JavaScript's \<open>a || b\<close> on an optional string: the empty string is falsy, as is an
  absent value.
\<close>

fun orElse :: "string option \<Rightarrow> string \<Rightarrow> string" where
  "orElse None b = b"
| "orElse (Some a) b = (if a = [] then b else a)"

section \<open>Browser objects and component state\<close>

text \<open>
  The component schedules two callbacks: the timeout of \<open>showStatusMessage\<close>, which
  clears the message, and the interval of the auto-save effect, which shows
  \<open>Auto-saved\<close>.
\<close>

datatype Callback = ClearStatus | AutoSaved

text \<open>A pending timer; \<open>period\<close> is \<open>None\<close> for \<open>setTimeout\<close> and the delay for
  \<open>setInterval\<close>. Times are in milliseconds.\<close>

record Timer =
  timerId :: nat
  due :: nat
  period :: "nat option"
  callback :: Callback

record Download =
  filename :: string
  mimeType :: string
  body :: string

record KeyboardEvent =
  ctrlKey :: bool
  key :: string
  defaultPrevented :: bool

record TextEditorProps =
  initialContentProp :: "string option"
  editorIdProp :: "string option"

text \<open>
  One mounted instance together with the browser it runs in. \<open>settingsObject\<close> is the
  identity of the object held in \<open>editorSettings\<close> (React compares dependencies with
  \<open>Object.is\<close>); \<open>autoSaveCleanup\<close> says whether the last run of the auto-save effect
  returned a cleanup function. \<open>writes\<close> lists the calls of \<open>saveFeatureState\<close>,
  \<open>writeTextCalls\<close> those of \<open>navigator.clipboard.writeText\<close>, \<open>statusLog\<close> those of
  \<open>setStatusMessage\<close> with the time of the call. \<open>clipboardApi\<close> says whether
  \<open>navigator.clipboard\<close> is defined (it is not on a page outside a secure context);
  \<open>pendingWrites\<close> holds the texts of the \<open>writeText\<close> promises not yet settled.
\<close>

record TextEditor =
  initialContent :: string
  editorId :: string
  content :: string
  editorSettings :: EditorSettings
  settingsObject :: nat
  statusMessage :: string
  autoSaveTimerRef :: "nat option"
  initialLoadDone :: bool
  autoSaveCleanup :: bool
  now :: nat
  timers :: "Timer list"
  nextTimerId :: nat
  store :: Store
  writes :: "(string \<times> Stored) list"
  downloads :: "Download list"
  clipboard :: "string option"
  clipboardApi :: bool
  pendingWrites :: "string list"
  writeTextCalls :: "string list"
  consoleErrors :: nat
  statusLog :: "(nat \<times> string) list"

subsection \<open>Browser and storage primitives\<close>

text \<open>
  Modelled from the spec: \<open>saveFeatureState\<close> of \<open>utils/storage\<close> is not among the
  sources. It writes the value under the key, synchronously, and reports nothing.
\<close>

definition saveFeatureState :: "string \<Rightarrow> Stored \<Rightarrow> TextEditor \<Rightarrow> TextEditor" where
  "saveFeatureState k v w = w\<lparr>store := (store w)(k \<mapsto> v), writes := writes w @ [(k, v)]\<rparr>"

definition setTimeout :: "Callback \<Rightarrow> nat \<Rightarrow> TextEditor \<Rightarrow> TextEditor" where
  "setTimeout cb delay w =
     w\<lparr>timers := timers w @
          [\<lparr>timerId = nextTimerId w, due = now w + delay, period = None, callback = cb\<rparr>],
       nextTimerId := Suc (nextTimerId w)\<rparr>"

definition setInterval :: "Callback \<Rightarrow> nat \<Rightarrow> TextEditor \<Rightarrow> nat \<times> TextEditor" where
  "setInterval cb delay w =
     (nextTimerId w,
      w\<lparr>timers := timers w @
          [\<lparr>timerId = nextTimerId w, due = now w + delay, period = Some delay, callback = cb\<rparr>],
        nextTimerId := Suc (nextTimerId w)\<rparr>)"

definition clearInterval :: "nat \<Rightarrow> TextEditor \<Rightarrow> TextEditor" where
  "clearInterval i w = w\<lparr>timers := filter (\<lambda>t. timerId t \<noteq> i) (timers w)\<rparr>"

definition setStatusMessage :: "string \<Rightarrow> TextEditor \<Rightarrow> TextEditor" where
  "setStatusMessage m w = w\<lparr>statusMessage := m, statusLog := statusLog w @ [(now w, m)]\<rparr>"

definition setContent :: "string \<Rightarrow> TextEditor \<Rightarrow> TextEditor" where
  "setContent c w = w\<lparr>content := c\<rparr>"

text \<open>\<open>setEditorSettings(updater)\<close>: the updater returns a new object.\<close>

definition setEditorSettings ::
  "(EditorSettings \<Rightarrow> EditorSettings) \<Rightarrow> TextEditor \<Rightarrow> TextEditor" where
  "setEditorSettings f w =
     w\<lparr>editorSettings := f (editorSettings w), settingsObject := Suc (settingsObject w)\<rparr>"

section \<open>Effects\<close>

text \<open>
  An effect reads the values of the render it was created in (\<open>r\<close>) and acts on the
  current state of the world (\<open>w\<close>). State setters called inside an effect take
  effect at the next render only.
\<close>

text \<open>Load state on mount (source lines 74 to 80).\<close>

definition loadEffect :: "Atoms \<Rightarrow> TextEditor \<Rightarrow> TextEditor \<Rightarrow> TextEditor" where
  "loadEffect A r w =
     (let savedSettings = loadEditorSettings A (store w) (editorId r);
          w1 = setEditorSettings (\<lambda>_. savedSettings) w;
          savedContent = loadEditorContent A (store w1) (editorId r);
          w2 = setContent (orElse savedContent (initialContent r)) w1
      in w2\<lparr>initialLoadDone := True\<rparr>)"

text \<open>Save content effect (lines 89 to 93) and save settings effect (lines 96 to 103).\<close>

definition saveContentEffect :: "Atoms \<Rightarrow> TextEditor \<Rightarrow> TextEditor \<Rightarrow> TextEditor" where
  "saveContentEffect A r w =
     (if initialLoadDone r
      then saveFeatureState (contentKey A (editorId r)) (StoredContent (content r)) w
      else w)"

definition saveSettingsEffect :: "Atoms \<Rightarrow> TextEditor \<Rightarrow> TextEditor \<Rightarrow> TextEditor" where
  "saveSettingsEffect A r w =
     (if initialLoadDone r
      then saveFeatureState (settingsKey A (editorId r)) (StoredSettings (editorSettings r)) w
      else w)"

text \<open>\<open>if (autoSaveTimerRef.current) clearInterval(autoSaveTimerRef.current)\<close>; a timer
  identifier is truthy when it is not zero.\<close>

definition clearAutoSaveTimer :: "TextEditor \<Rightarrow> TextEditor" where
  "clearAutoSaveTimer w =
     (case autoSaveTimerRef w of
        None \<Rightarrow> w
      | Some i \<Rightarrow> if i \<noteq> 0 then clearInterval i w else w)"

text \<open>
  Show status message utility (lines 83 to 86): the identifier that \<open>setTimeout\<close>
  returns is dropped.
\<close>

definition showStatusMessage :: "string \<Rightarrow> TextEditor \<Rightarrow> TextEditor" where
  "showStatusMessage m w = setTimeout ClearStatus 2000 (setStatusMessage m w)"

text \<open>Auto-save effect (lines 106 to 130): the body, and the cleanup it returns from
  its second branch.\<close>

definition autoSaveEffect :: "TextEditor \<Rightarrow> TextEditor \<Rightarrow> TextEditor" where
  "autoSaveEffect r w =
     (if \<not> initialLoadDone r \<or> autoSaveInterval (editorSettings r) \<le> 0
      then (clearAutoSaveTimer w)\<lparr>autoSaveCleanup := False\<rparr>
      else (let w1 = clearAutoSaveTimer w;
                (i, w2) = setInterval AutoSaved (nat (autoSaveInterval (editorSettings r) * 1000)) w1
            in w2\<lparr>autoSaveTimerRef := Some i, autoSaveCleanup := True\<rparr>))"

definition autoSaveEffectCleanup :: "TextEditor \<Rightarrow> TextEditor" where
  "autoSaveEffectCleanup w = (if autoSaveCleanup w then clearAutoSaveTimer w else w)"

text \<open>
  The commit that follows a render: \<open>p\<close> is the previous render, \<open>r\<close> the new one. An
  effect runs when one of its dependencies differs, after the cleanup of its previous
  run, and the effects run in source order. First the effects that follow the load
  effect, acting on the world \<open>w\<close>: save content, save settings, auto-save. The
  keyboard effect (lines 164 to 179) only re-registers \<open>handleKeyDown\<close> with the
  handlers of the new render. The callback \<open>showStatusMessage\<close> has no dependencies and
  never changes.
\<close>

definition laterEffects ::
  "Atoms \<Rightarrow> TextEditor \<Rightarrow> TextEditor \<Rightarrow> TextEditor \<Rightarrow> TextEditor" where
  "laterEffects A p r w =
     (let w1 = (if content r \<noteq> content p \<or> editorId r \<noteq> editorId p
                   \<or> initialLoadDone r \<noteq> initialLoadDone p
                then saveContentEffect A r w else w);
          w2 = (if settingsObject r \<noteq> settingsObject p \<or> editorId r \<noteq> editorId p
                   \<or> initialLoadDone r \<noteq> initialLoadDone p
                then saveSettingsEffect A r w1 else w1);
          w3 = (if autoSaveInterval (editorSettings r) \<noteq> autoSaveInterval (editorSettings p)
                   \<or> editorId r \<noteq> editorId p \<or> initialLoadDone r \<noteq> initialLoadDone p
                then autoSaveEffect r (autoSaveEffectCleanup w2) else w2)
      in w3)"

text \<open>
  The whole commit. The load effect (dependencies \<open>[editorId, initialContent]\<close>, line
  80) comes first and runs again when a prop changed; the state it sets is seen by the
  next render only, so the effects after it still save the content and settings of the
  render \<open>r\<close>.
\<close>

definition commit :: "Atoms \<Rightarrow> TextEditor \<Rightarrow> TextEditor \<Rightarrow> TextEditor" where
  "commit A p r =
     laterEffects A p r
       (if editorId r \<noteq> editorId p \<or> initialContent r \<noteq> initialContent p
        then loadEffect A r r else r)"

text \<open>
  The first render: the destructuring defaults of the props (lines 59 to 62) and the
  initial values of the hooks (lines 64 to 71), in a browser whose store is \<open>st\<close>
  and where \<open>navigator.clipboard\<close> is defined (the event \<open>ClipboardApi\<close> below
  changes that).
\<close>

definition firstRender :: "Atoms \<Rightarrow> TextEditorProps \<Rightarrow> Store \<Rightarrow> TextEditor" where
  "firstRender A props st =
     \<lparr>initialContent = (case initialContentProp props of None \<Rightarrow> [] | Some c \<Rightarrow> c),
      editorId = (case editorIdProp props of None \<Rightarrow> ''default'' | Some e \<Rightarrow> e),
      content = [],
      editorSettings = defaultEditorSettings A,
      settingsObject = 0,
      statusMessage = [],
      autoSaveTimerRef = None,
      initialLoadDone = False,
      autoSaveCleanup = False,
      now = 0,
      timers = [],
      nextTimerId = 1,
      store = st,
      writes = [],
      downloads = [],
      clipboard = None,
      clipboardApi = True,
      pendingWrites = [],
      writeTextCalls = [],
      consoleErrors = 0,
      statusLog = []\<rparr>"

text \<open>The effects of the first render, all of them and in source order.\<close>

definition mountEffects :: "Atoms \<Rightarrow> TextEditor \<Rightarrow> TextEditor" where
  "mountEffects A r =
     autoSaveEffect r (saveSettingsEffect A r (saveContentEffect A r (loadEffect A r r)))"

text \<open>Mounting: the first render and its effects, then the render that the state
  setters of the load effect cause, and its commit.\<close>

definition mount :: "Atoms \<Rightarrow> TextEditorProps \<Rightarrow> Store \<Rightarrow> TextEditor" where
  "mount A props st = (let r = firstRender A props st in commit A r (mountEffects A r))"


section \<open>Handlers\<close>

text \<open>\<open>handleSaveToFile\<close> (lines 133 to 144): the anchor click downloads the blob.\<close>

definition handleSaveToFile :: "TextEditor \<Rightarrow> TextEditor" where
  "handleSaveToFile w =
     showStatusMessage ''Content saved to file''
       (w\<lparr>downloads := downloads w @
            [\<lparr>filename = editorId w @ ''_note.txt'', mimeType = ''text/plain'',
              body = content w\<rparr>]\<rparr>)"

text \<open>
  \<open>handleCopyToClipboard\<close> (lines 146 to 154) in its two halves. Up to the \<open>await\<close>:
  where \<open>navigator.clipboard\<close> is undefined, \<open>navigator.clipboard.writeText\<close> throws
  at once, inside the \<open>try\<close>, and the \<open>catch\<close> logs the error and shows the failure
  message; otherwise \<open>writeText\<close> is called with the content and its promise is
  pending.
\<close>

definition handleCopyToClipboard :: "TextEditor \<Rightarrow> TextEditor" where
  "handleCopyToClipboard w =
     (if clipboardApi w
      then w\<lparr>pendingWrites := pendingWrites w @ [content w],
             writeTextCalls := writeTextCalls w @ [content w]\<rparr>
      else showStatusMessage ''Failed to copy content!''
             (w\<lparr>consoleErrors := Suc (consoleErrors w)\<rparr>))"

text \<open>
  The continuation, when the browser settles the pending promise number \<open>i\<close>
  (promises settle in any order), fulfilled (\<open>ok\<close>) or rejected. The text is the one
  the call was made with.
\<close>

definition writeTextSettled :: "nat \<Rightarrow> bool \<Rightarrow> TextEditor \<Rightarrow> TextEditor" where
  "writeTextSettled i ok w =
     (if i < length (pendingWrites w)
      then (let copied = pendingWrites w ! i;
                rest = take i (pendingWrites w) @ drop (Suc i) (pendingWrites w)
            in if ok
               then showStatusMessage ''Content copied to clipboard!''
                      (w\<lparr>pendingWrites := rest, clipboard := Some copied\<rparr>)
               else showStatusMessage ''Failed to copy content!''
                      (w\<lparr>pendingWrites := rest, consoleErrors := Suc (consoleErrors w)\<rparr>))
      else w)"

text \<open>\<open>handleClearText\<close> (lines 156 to 161); \<open>confirmed\<close> is the answer to
  \<open>window.confirm\<close>.\<close>

definition handleClearText :: "bool \<Rightarrow> TextEditor \<Rightarrow> TextEditor" where
  "handleClearText confirmed w =
     (if confirmed then showStatusMessage ''All text cleared'' (setContent [] w) else w)"

definition preventDefault :: "KeyboardEvent \<Rightarrow> KeyboardEvent" where
  "preventDefault e = e\<lparr>defaultPrevented := True\<rparr>"

text \<open>
  \<open>handleKeyDown\<close> (lines 165 to 176). \<open>sel\<close> is \<open>window.getSelection()\<close>: \<open>None\<close> for
  \<open>null\<close>, otherwise the selection's \<open>toString()\<close>. With \<open>?.\<close> a \<open>null\<close> selection
  gives \<open>undefined\<close>, which is not \<open>=== ""\<close>.
\<close>

definition handleKeyDown ::
  "KeyboardEvent \<Rightarrow> string option \<Rightarrow> TextEditor \<Rightarrow> KeyboardEvent \<times> TextEditor" where
  "handleKeyDown e sel w =
     (let (e1, w1) = (if ctrlKey e \<and> key e = ''s''
                      then (preventDefault e, handleSaveToFile w) else (e, w))
      in if ctrlKey e1 \<and> key e1 = ''c'' \<and> sel = Some []
         then (preventDefault e1, handleCopyToClipboard w1) else (e1, w1))"

text \<open>\<open>updateSetting\<close> (lines 182 to 190).\<close>

definition updateSetting :: "Setting \<Rightarrow> TextEditor \<Rightarrow> TextEditor" where
  "updateSetting kv w = setEditorSettings (spread kv) w"

section \<open>Events\<close>

text \<open>A timer callback runs, and React commits the state it set.\<close>

definition runCallback :: "Atoms \<Rightarrow> Callback \<Rightarrow> TextEditor \<Rightarrow> TextEditor" where
  "runCallback A cb w =
     commit A w (case cb of
                   ClearStatus \<Rightarrow> setStatusMessage [] w
                 | AutoSaved \<Rightarrow> showStatusMessage ''Auto-saved'' w)"

text \<open>A due timer fires unless it was cleared meanwhile; a timeout is removed, an
  interval is scheduled again one period later.\<close>

definition fire :: "Atoms \<Rightarrow> Timer \<Rightarrow> TextEditor \<Rightarrow> TextEditor" where
  "fire A t w =
     (if timerId t \<notin> set (map timerId (timers w)) then w
      else case period t of
             None \<Rightarrow>
               runCallback A (callback t)
                 (w\<lparr>timers := filter (\<lambda>u. timerId u \<noteq> timerId t) (timers w)\<rparr>)
           | Some p \<Rightarrow>
               runCallback A (callback t)
                 (w\<lparr>timers := map (\<lambda>u. if timerId u = timerId t then u\<lparr>due := due u + p\<rparr> else u)
                                 (timers w)\<rparr>))"

text \<open>One millisecond passes: the timers that are due fire in the order of their
  creation.\<close>

definition tick :: "Atoms \<Rightarrow> TextEditor \<Rightarrow> TextEditor" where
  "tick A w =
     (let w1 = w\<lparr>now := Suc (now w)\<rparr>
      in fold (fire A) (filter (\<lambda>t. due t \<le> now w1) (timers w1)) w1)"

primrec advance :: "Atoms \<Rightarrow> nat \<Rightarrow> TextEditor \<Rightarrow> TextEditor" where
  "advance A 0 w = w"
| "advance A (Suc n) w = advance A n (tick A w)"

text \<open>The parent renders the component with other props: the destructuring defaults
  apply again, the hooks keep their state.\<close>

definition applyProps :: "TextEditorProps \<Rightarrow> TextEditor \<Rightarrow> TextEditor" where
  "applyProps props w =
     w\<lparr>initialContent := (case initialContentProp props of None \<Rightarrow> [] | Some c \<Rightarrow> c),
       editorId := (case editorIdProp props of None \<Rightarrow> ''default'' | Some e \<Rightarrow> e)\<rparr>"

text \<open>
  What can happen to a mounted instance. A React event handler runs to its end, then
  React renders once and commits: the toggle group's \<open>onValueChange\<close> calls
  \<open>updateSetting\<close> three times in one handler, hence the list. After a change of
  props the load effect sets state, so a second render and commit follow the first.
  \<open>ClipboardApi\<close> is the browser making \<open>navigator.clipboard\<close> defined or not: the
  model lets it differ from one call to the next.
\<close>

datatype Event =
  ContentChanged string
  | SettingsChanged "Setting list"
  | SaveClicked
  | CopyClicked
  | ClearClicked bool
  | KeyDown KeyboardEvent "string option"
  | WriteTextSettled nat bool
  | Millisecond
  | PropsChanged TextEditorProps
  | ClipboardApi bool

fun handle :: "Atoms \<Rightarrow> Event \<Rightarrow> TextEditor \<Rightarrow> TextEditor" where
  "handle A (ContentChanged text) w = commit A w (setContent text w)"
| "handle A (SettingsChanged kvs) w = commit A w (fold updateSetting kvs w)"
| "handle A SaveClicked w = commit A w (handleSaveToFile w)"
| "handle A CopyClicked w = commit A w (handleCopyToClipboard w)"
| "handle A (ClearClicked confirmed) w = commit A w (handleClearText confirmed w)"
| "handle A (KeyDown e sel) w = commit A w (snd (handleKeyDown e sel w))"
| "handle A (WriteTextSettled i ok) w = commit A w (writeTextSettled i ok w)"
| "handle A Millisecond w = tick A w"
| "handle A (PropsChanged props) w =
     (let r = applyProps props w in commit A r (commit A w r))"
| "handle A (ClipboardApi b) w = w\<lparr>clipboardApi := b\<rparr>"

text \<open>The events that change the props.\<close>

fun propsEvent :: "Event \<Rightarrow> bool" where
  "propsEvent (PropsChanged _) = True"
| "propsEvent _ = False"

definition run :: "Atoms \<Rightarrow> Event list \<Rightarrow> TextEditor \<Rightarrow> TextEditor" where
  "run A evs w = fold (handle A) evs w"

section \<open>A concrete instance\<close>

text \<open>Some values for the constants of the atoms module, and an editor mounted with
  them over an empty store; used where a statement is checked at a concrete input.\<close>

definition exampleSettings :: EditorSettings where
  "exampleSettings =
     \<lparr>fontFamily = ''monospace'', fontSize = 14, lineHeight = 3 / 2, isBold = False,
      isItalic = False, isUnderline = False, textAlign = Left, textColor = ''#000000'',
      backgroundColor = ''#ffffff'', wordWrap = True, tabSize = 2, autoSaveInterval = 5\<rparr>"

definition exampleAtoms :: Atoms where
  "exampleAtoms =
     \<lparr>TEXT_EDITOR_STORAGE_KEY = ''textEditorContent'',
      TEXT_EDITOR_SETTINGS_KEY = ''textEditorSettings'',
      defaultEditorSettings = exampleSettings\<rparr>"

definition exampleProps :: TextEditorProps where
  "exampleProps = \<lparr>initialContentProp = Some ''hello'', editorIdProp = Some ''notes''\<rparr>"



definition exampleEditor :: TextEditor where
  "exampleEditor = mount exampleAtoms exampleProps Map.empty"

definition ctrlS :: KeyboardEvent where
  "ctrlS = \<lparr>ctrlKey = True, key = ''s'', defaultPrevented = False\<rparr>"

definition ctrlC :: KeyboardEvent where
  "ctrlC = \<lparr>ctrlKey = True, key = ''c'', defaultPrevented = False\<rparr>"

section \<open>Invariants of a mounted editor\<close>

text \<open>The pending intervals, and the times at which \<open>Auto-saved\<close> was shown.\<close>

definition intervals :: "TextEditor \<Rightarrow> Timer list" where
  "intervals w = filter (\<lambda>t. period t \<noteq> None) (timers w)"


text \<open>
  What holds of a pending timer when the auto-save effect last ran with the interval
  \<open>n\<close>: a timeout is a status clearing that is not the timer the ref names; an interval
  is the auto-save timer of \<open>n\<close> seconds that the ref names.
\<close>

definition timerOk :: "int \<Rightarrow> TextEditor \<Rightarrow> Timer \<Rightarrow> bool" where
  "timerOk n w t \<longleftrightarrow>
     (period t = None \<longrightarrow>
        callback t = ClearStatus \<and> autoSaveTimerRef w \<noteq> Some (timerId t)
        \<and> due t \<le> now w + 2000)
     \<and> (period t \<noteq> None \<longrightarrow>
        0 < n \<and> period t = Some (nat (n * 1000)) \<and> callback t = AutoSaved
        \<and> autoSaveTimerRef w = Some (timerId t) \<and> timerId t \<noteq> 0
        \<and> due t \<le> now w + nat (n * 1000))"

definition timersOkFor :: "int \<Rightarrow> TextEditor \<Rightarrow> bool" where
  "timersOkFor n w \<longleftrightarrow>
     distinct (map timerId (timers w))
     \<and> 0 < nextTimerId w
     \<and> (\<forall>t\<in>set (timers w). timerId t < nextTimerId w \<and> timerOk n w t)
     \<and> (\<forall>i\<in>set_option (autoSaveTimerRef w). i < nextTimerId w)
     \<and> (0 < n \<longrightarrow> autoSaveCleanup w \<and> intervals w \<noteq> [])"


text \<open>The store holds the content and the settings of the instance.\<close>

definition storeOk :: "Atoms \<Rightarrow> TextEditor \<Rightarrow> bool" where
  "storeOk A w \<longleftrightarrow>
     store w (contentKey A (editorId w)) = Some (StoredContent (content w))
     \<and> store w (settingsKey A (editorId w)) = Some (StoredSettings (editorSettings w))"


section \<open>How each operation acts on the fields of the state\<close>

lemma saveFeatureState_frame [simp]:
  "initialContent (saveFeatureState k v w) = initialContent w"
  "editorId (saveFeatureState k v w) = editorId w"
  "clipboardApi (saveFeatureState k v w) = clipboardApi w"
  "content (saveFeatureState k v w) = content w"
  "editorSettings (saveFeatureState k v w) = editorSettings w"
  "settingsObject (saveFeatureState k v w) = settingsObject w"
  "statusMessage (saveFeatureState k v w) = statusMessage w"
  "autoSaveTimerRef (saveFeatureState k v w) = autoSaveTimerRef w"
  "initialLoadDone (saveFeatureState k v w) = initialLoadDone w"
  "autoSaveCleanup (saveFeatureState k v w) = autoSaveCleanup w"
  "now (saveFeatureState k v w) = now w"
  "timers (saveFeatureState k v w) = timers w"
  "nextTimerId (saveFeatureState k v w) = nextTimerId w"
  "downloads (saveFeatureState k v w) = downloads w"
  "clipboard (saveFeatureState k v w) = clipboard w"
  "pendingWrites (saveFeatureState k v w) = pendingWrites w"
  "writeTextCalls (saveFeatureState k v w) = writeTextCalls w"
  "consoleErrors (saveFeatureState k v w) = consoleErrors w"
  "statusLog (saveFeatureState k v w) = statusLog w"
  by (simp_all add: saveFeatureState_def)

lemma saveContentEffect_frame [simp]:
  "initialContent (saveContentEffect A r w) = initialContent w"
  "editorId (saveContentEffect A r w) = editorId w"
  "clipboardApi (saveContentEffect A r w) = clipboardApi w"
  "content (saveContentEffect A r w) = content w"
  "editorSettings (saveContentEffect A r w) = editorSettings w"
  "settingsObject (saveContentEffect A r w) = settingsObject w"
  "statusMessage (saveContentEffect A r w) = statusMessage w"
  "autoSaveTimerRef (saveContentEffect A r w) = autoSaveTimerRef w"
  "initialLoadDone (saveContentEffect A r w) = initialLoadDone w"
  "autoSaveCleanup (saveContentEffect A r w) = autoSaveCleanup w"
  "now (saveContentEffect A r w) = now w"
  "timers (saveContentEffect A r w) = timers w"
  "nextTimerId (saveContentEffect A r w) = nextTimerId w"
  "downloads (saveContentEffect A r w) = downloads w"
  "clipboard (saveContentEffect A r w) = clipboard w"
  "pendingWrites (saveContentEffect A r w) = pendingWrites w"
  "writeTextCalls (saveContentEffect A r w) = writeTextCalls w"
  "consoleErrors (saveContentEffect A r w) = consoleErrors w"
  "statusLog (saveContentEffect A r w) = statusLog w"
  by (simp_all add: saveContentEffect_def)

lemma saveSettingsEffect_frame [simp]:
  "initialContent (saveSettingsEffect A r w) = initialContent w"
  "editorId (saveSettingsEffect A r w) = editorId w"
  "clipboardApi (saveSettingsEffect A r w) = clipboardApi w"
  "content (saveSettingsEffect A r w) = content w"
  "editorSettings (saveSettingsEffect A r w) = editorSettings w"
  "settingsObject (saveSettingsEffect A r w) = settingsObject w"
  "statusMessage (saveSettingsEffect A r w) = statusMessage w"
  "autoSaveTimerRef (saveSettingsEffect A r w) = autoSaveTimerRef w"
  "initialLoadDone (saveSettingsEffect A r w) = initialLoadDone w"
  "autoSaveCleanup (saveSettingsEffect A r w) = autoSaveCleanup w"
  "now (saveSettingsEffect A r w) = now w"
  "timers (saveSettingsEffect A r w) = timers w"
  "nextTimerId (saveSettingsEffect A r w) = nextTimerId w"
  "downloads (saveSettingsEffect A r w) = downloads w"
  "clipboard (saveSettingsEffect A r w) = clipboard w"
  "pendingWrites (saveSettingsEffect A r w) = pendingWrites w"
  "writeTextCalls (saveSettingsEffect A r w) = writeTextCalls w"
  "consoleErrors (saveSettingsEffect A r w) = consoleErrors w"
  "statusLog (saveSettingsEffect A r w) = statusLog w"
  by (simp_all add: saveSettingsEffect_def)

lemma clearAutoSaveTimer_frame [simp]:
  "initialContent (clearAutoSaveTimer w) = initialContent w"
  "editorId (clearAutoSaveTimer w) = editorId w"
  "clipboardApi (clearAutoSaveTimer w) = clipboardApi w"
  "content (clearAutoSaveTimer w) = content w"
  "editorSettings (clearAutoSaveTimer w) = editorSettings w"
  "settingsObject (clearAutoSaveTimer w) = settingsObject w"
  "statusMessage (clearAutoSaveTimer w) = statusMessage w"
  "autoSaveTimerRef (clearAutoSaveTimer w) = autoSaveTimerRef w"
  "initialLoadDone (clearAutoSaveTimer w) = initialLoadDone w"
  "autoSaveCleanup (clearAutoSaveTimer w) = autoSaveCleanup w"
  "now (clearAutoSaveTimer w) = now w"
  "nextTimerId (clearAutoSaveTimer w) = nextTimerId w"
  "store (clearAutoSaveTimer w) = store w"
  "writes (clearAutoSaveTimer w) = writes w"
  "downloads (clearAutoSaveTimer w) = downloads w"
  "clipboard (clearAutoSaveTimer w) = clipboard w"
  "pendingWrites (clearAutoSaveTimer w) = pendingWrites w"
  "writeTextCalls (clearAutoSaveTimer w) = writeTextCalls w"
  "consoleErrors (clearAutoSaveTimer w) = consoleErrors w"
  "statusLog (clearAutoSaveTimer w) = statusLog w"
  by (simp_all add: clearAutoSaveTimer_def clearInterval_def split: option.splits)

lemma autoSaveEffectCleanup_frame [simp]:
  "initialContent (autoSaveEffectCleanup w) = initialContent w"
  "editorId (autoSaveEffectCleanup w) = editorId w"
  "clipboardApi (autoSaveEffectCleanup w) = clipboardApi w"
  "content (autoSaveEffectCleanup w) = content w"
  "editorSettings (autoSaveEffectCleanup w) = editorSettings w"
  "settingsObject (autoSaveEffectCleanup w) = settingsObject w"
  "statusMessage (autoSaveEffectCleanup w) = statusMessage w"
  "autoSaveTimerRef (autoSaveEffectCleanup w) = autoSaveTimerRef w"
  "initialLoadDone (autoSaveEffectCleanup w) = initialLoadDone w"
  "autoSaveCleanup (autoSaveEffectCleanup w) = autoSaveCleanup w"
  "now (autoSaveEffectCleanup w) = now w"
  "nextTimerId (autoSaveEffectCleanup w) = nextTimerId w"
  "store (autoSaveEffectCleanup w) = store w"
  "writes (autoSaveEffectCleanup w) = writes w"
  "downloads (autoSaveEffectCleanup w) = downloads w"
  "clipboard (autoSaveEffectCleanup w) = clipboard w"
  "pendingWrites (autoSaveEffectCleanup w) = pendingWrites w"
  "writeTextCalls (autoSaveEffectCleanup w) = writeTextCalls w"
  "consoleErrors (autoSaveEffectCleanup w) = consoleErrors w"
  "statusLog (autoSaveEffectCleanup w) = statusLog w"
  by (simp_all add: autoSaveEffectCleanup_def)

lemma autoSaveEffect_frame [simp]:
  "initialContent (autoSaveEffect r w) = initialContent w"
  "editorId (autoSaveEffect r w) = editorId w"
  "clipboardApi (autoSaveEffect r w) = clipboardApi w"
  "content (autoSaveEffect r w) = content w"
  "editorSettings (autoSaveEffect r w) = editorSettings w"
  "settingsObject (autoSaveEffect r w) = settingsObject w"
  "statusMessage (autoSaveEffect r w) = statusMessage w"
  "initialLoadDone (autoSaveEffect r w) = initialLoadDone w"
  "now (autoSaveEffect r w) = now w"
  "store (autoSaveEffect r w) = store w"
  "writes (autoSaveEffect r w) = writes w"
  "downloads (autoSaveEffect r w) = downloads w"
  "clipboard (autoSaveEffect r w) = clipboard w"
  "pendingWrites (autoSaveEffect r w) = pendingWrites w"
  "writeTextCalls (autoSaveEffect r w) = writeTextCalls w"
  "consoleErrors (autoSaveEffect r w) = consoleErrors w"
  "statusLog (autoSaveEffect r w) = statusLog w"
  by (simp_all add: autoSaveEffect_def setInterval_def Let_def)

lemma laterEffects_frame [simp]:
  "initialContent (laterEffects A p r w) = initialContent w"
  "editorId (laterEffects A p r w) = editorId w"
  "content (laterEffects A p r w) = content w"
  "editorSettings (laterEffects A p r w) = editorSettings w"
  "settingsObject (laterEffects A p r w) = settingsObject w"
  "statusMessage (laterEffects A p r w) = statusMessage w"
  "initialLoadDone (laterEffects A p r w) = initialLoadDone w"
  "now (laterEffects A p r w) = now w"
  "downloads (laterEffects A p r w) = downloads w"
  "clipboard (laterEffects A p r w) = clipboard w"
  "clipboardApi (laterEffects A p r w) = clipboardApi w"
  "pendingWrites (laterEffects A p r w) = pendingWrites w"
  "writeTextCalls (laterEffects A p r w) = writeTextCalls w"
  "consoleErrors (laterEffects A p r w) = consoleErrors w"
  "statusLog (laterEffects A p r w) = statusLog w"
  by (simp_all add: laterEffects_def Let_def)

lemma setStatusMessage_frame [simp]:
  "initialContent (setStatusMessage m w) = initialContent w"
  "editorId (setStatusMessage m w) = editorId w"
  "clipboardApi (setStatusMessage m w) = clipboardApi w"
  "content (setStatusMessage m w) = content w"
  "editorSettings (setStatusMessage m w) = editorSettings w"
  "settingsObject (setStatusMessage m w) = settingsObject w"
  "autoSaveTimerRef (setStatusMessage m w) = autoSaveTimerRef w"
  "initialLoadDone (setStatusMessage m w) = initialLoadDone w"
  "autoSaveCleanup (setStatusMessage m w) = autoSaveCleanup w"
  "now (setStatusMessage m w) = now w"
  "timers (setStatusMessage m w) = timers w"
  "nextTimerId (setStatusMessage m w) = nextTimerId w"
  "store (setStatusMessage m w) = store w"
  "writes (setStatusMessage m w) = writes w"
  "downloads (setStatusMessage m w) = downloads w"
  "clipboard (setStatusMessage m w) = clipboard w"
  "pendingWrites (setStatusMessage m w) = pendingWrites w"
  "writeTextCalls (setStatusMessage m w) = writeTextCalls w"
  "consoleErrors (setStatusMessage m w) = consoleErrors w"
  by (simp_all add: setStatusMessage_def)

lemma setTimeout_frame [simp]:
  "initialContent (setTimeout cb d w) = initialContent w"
  "editorId (setTimeout cb d w) = editorId w"
  "clipboardApi (setTimeout cb d w) = clipboardApi w"
  "content (setTimeout cb d w) = content w"
  "editorSettings (setTimeout cb d w) = editorSettings w"
  "settingsObject (setTimeout cb d w) = settingsObject w"
  "statusMessage (setTimeout cb d w) = statusMessage w"
  "autoSaveTimerRef (setTimeout cb d w) = autoSaveTimerRef w"
  "initialLoadDone (setTimeout cb d w) = initialLoadDone w"
  "autoSaveCleanup (setTimeout cb d w) = autoSaveCleanup w"
  "now (setTimeout cb d w) = now w"
  "store (setTimeout cb d w) = store w"
  "writes (setTimeout cb d w) = writes w"
  "downloads (setTimeout cb d w) = downloads w"
  "clipboard (setTimeout cb d w) = clipboard w"
  "pendingWrites (setTimeout cb d w) = pendingWrites w"
  "writeTextCalls (setTimeout cb d w) = writeTextCalls w"
  "consoleErrors (setTimeout cb d w) = consoleErrors w"
  "statusLog (setTimeout cb d w) = statusLog w"
  by (simp_all add: setTimeout_def)

lemma showStatusMessage_frame [simp]:
  "initialContent (showStatusMessage m w) = initialContent w"
  "editorId (showStatusMessage m w) = editorId w"
  "clipboardApi (showStatusMessage m w) = clipboardApi w"
  "content (showStatusMessage m w) = content w"
  "editorSettings (showStatusMessage m w) = editorSettings w"
  "settingsObject (showStatusMessage m w) = settingsObject w"
  "autoSaveTimerRef (showStatusMessage m w) = autoSaveTimerRef w"
  "initialLoadDone (showStatusMessage m w) = initialLoadDone w"
  "autoSaveCleanup (showStatusMessage m w) = autoSaveCleanup w"
  "now (showStatusMessage m w) = now w"
  "store (showStatusMessage m w) = store w"
  "writes (showStatusMessage m w) = writes w"
  "downloads (showStatusMessage m w) = downloads w"
  "clipboard (showStatusMessage m w) = clipboard w"
  "pendingWrites (showStatusMessage m w) = pendingWrites w"
  "writeTextCalls (showStatusMessage m w) = writeTextCalls w"
  "consoleErrors (showStatusMessage m w) = consoleErrors w"
  by (simp_all add: showStatusMessage_def)

lemma setContent_frame [simp]:
  "initialContent (setContent c w) = initialContent w"
  "editorId (setContent c w) = editorId w"
  "clipboardApi (setContent c w) = clipboardApi w"
  "editorSettings (setContent c w) = editorSettings w"
  "settingsObject (setContent c w) = settingsObject w"
  "statusMessage (setContent c w) = statusMessage w"
  "autoSaveTimerRef (setContent c w) = autoSaveTimerRef w"
  "initialLoadDone (setContent c w) = initialLoadDone w"
  "autoSaveCleanup (setContent c w) = autoSaveCleanup w"
  "now (setContent c w) = now w"
  "timers (setContent c w) = timers w"
  "nextTimerId (setContent c w) = nextTimerId w"
  "store (setContent c w) = store w"
  "writes (setContent c w) = writes w"
  "downloads (setContent c w) = downloads w"
  "clipboard (setContent c w) = clipboard w"
  "pendingWrites (setContent c w) = pendingWrites w"
  "writeTextCalls (setContent c w) = writeTextCalls w"
  "consoleErrors (setContent c w) = consoleErrors w"
  "statusLog (setContent c w) = statusLog w"
  by (simp_all add: setContent_def)

lemma setEditorSettings_frame [simp]:
  "initialContent (setEditorSettings f w) = initialContent w"
  "editorId (setEditorSettings f w) = editorId w"
  "clipboardApi (setEditorSettings f w) = clipboardApi w"
  "content (setEditorSettings f w) = content w"
  "statusMessage (setEditorSettings f w) = statusMessage w"
  "autoSaveTimerRef (setEditorSettings f w) = autoSaveTimerRef w"
  "initialLoadDone (setEditorSettings f w) = initialLoadDone w"
  "autoSaveCleanup (setEditorSettings f w) = autoSaveCleanup w"
  "now (setEditorSettings f w) = now w"
  "timers (setEditorSettings f w) = timers w"
  "nextTimerId (setEditorSettings f w) = nextTimerId w"
  "store (setEditorSettings f w) = store w"
  "writes (setEditorSettings f w) = writes w"
  "downloads (setEditorSettings f w) = downloads w"
  "clipboard (setEditorSettings f w) = clipboard w"
  "pendingWrites (setEditorSettings f w) = pendingWrites w"
  "writeTextCalls (setEditorSettings f w) = writeTextCalls w"
  "consoleErrors (setEditorSettings f w) = consoleErrors w"
  "statusLog (setEditorSettings f w) = statusLog w"
  by (simp_all add: setEditorSettings_def)

lemma updateSetting_frame [simp]:
  "initialContent (updateSetting kv w) = initialContent w"
  "editorId (updateSetting kv w) = editorId w"
  "clipboardApi (updateSetting kv w) = clipboardApi w"
  "content (updateSetting kv w) = content w"
  "statusMessage (updateSetting kv w) = statusMessage w"
  "autoSaveTimerRef (updateSetting kv w) = autoSaveTimerRef w"
  "initialLoadDone (updateSetting kv w) = initialLoadDone w"
  "autoSaveCleanup (updateSetting kv w) = autoSaveCleanup w"
  "now (updateSetting kv w) = now w"
  "timers (updateSetting kv w) = timers w"
  "nextTimerId (updateSetting kv w) = nextTimerId w"
  "store (updateSetting kv w) = store w"
  "writes (updateSetting kv w) = writes w"
  "downloads (updateSetting kv w) = downloads w"
  "clipboard (updateSetting kv w) = clipboard w"
  "pendingWrites (updateSetting kv w) = pendingWrites w"
  "writeTextCalls (updateSetting kv w) = writeTextCalls w"
  "consoleErrors (updateSetting kv w) = consoleErrors w"
  "statusLog (updateSetting kv w) = statusLog w"
  by (simp_all add: updateSetting_def)

lemma handleSaveToFile_frame [simp]:
  "initialContent (handleSaveToFile w) = initialContent w"
  "editorId (handleSaveToFile w) = editorId w"
  "clipboardApi (handleSaveToFile w) = clipboardApi w"
  "content (handleSaveToFile w) = content w"
  "editorSettings (handleSaveToFile w) = editorSettings w"
  "settingsObject (handleSaveToFile w) = settingsObject w"
  "autoSaveTimerRef (handleSaveToFile w) = autoSaveTimerRef w"
  "initialLoadDone (handleSaveToFile w) = initialLoadDone w"
  "autoSaveCleanup (handleSaveToFile w) = autoSaveCleanup w"
  "now (handleSaveToFile w) = now w"
  "store (handleSaveToFile w) = store w"
  "writes (handleSaveToFile w) = writes w"
  "clipboard (handleSaveToFile w) = clipboard w"
  "pendingWrites (handleSaveToFile w) = pendingWrites w"
  "writeTextCalls (handleSaveToFile w) = writeTextCalls w"
  "consoleErrors (handleSaveToFile w) = consoleErrors w"
  by (simp_all add: handleSaveToFile_def)

lemma handleCopyToClipboard_frame [simp]:
  "initialContent (handleCopyToClipboard w) = initialContent w"
  "editorId (handleCopyToClipboard w) = editorId w"
  "content (handleCopyToClipboard w) = content w"
  "editorSettings (handleCopyToClipboard w) = editorSettings w"
  "settingsObject (handleCopyToClipboard w) = settingsObject w"
  "autoSaveTimerRef (handleCopyToClipboard w) = autoSaveTimerRef w"
  "initialLoadDone (handleCopyToClipboard w) = initialLoadDone w"
  "autoSaveCleanup (handleCopyToClipboard w) = autoSaveCleanup w"
  "now (handleCopyToClipboard w) = now w"
  "store (handleCopyToClipboard w) = store w"
  "writes (handleCopyToClipboard w) = writes w"
  "downloads (handleCopyToClipboard w) = downloads w"
  "clipboard (handleCopyToClipboard w) = clipboard w"
  "clipboardApi (handleCopyToClipboard w) = clipboardApi w"
  by (simp_all add: handleCopyToClipboard_def)

lemma writeTextSettled_frame [simp]:
  "initialContent (writeTextSettled i ok w) = initialContent w"
  "editorId (writeTextSettled i ok w) = editorId w"
  "content (writeTextSettled i ok w) = content w"
  "editorSettings (writeTextSettled i ok w) = editorSettings w"
  "settingsObject (writeTextSettled i ok w) = settingsObject w"
  "autoSaveTimerRef (writeTextSettled i ok w) = autoSaveTimerRef w"
  "initialLoadDone (writeTextSettled i ok w) = initialLoadDone w"
  "autoSaveCleanup (writeTextSettled i ok w) = autoSaveCleanup w"
  "now (writeTextSettled i ok w) = now w"
  "store (writeTextSettled i ok w) = store w"
  "writes (writeTextSettled i ok w) = writes w"
  "downloads (writeTextSettled i ok w) = downloads w"
  "clipboardApi (writeTextSettled i ok w) = clipboardApi w"
  "writeTextCalls (writeTextSettled i ok w) = writeTextCalls w"
  by (simp_all add: writeTextSettled_def Let_def)

lemma handleClearText_frame [simp]:
  "initialContent (handleClearText c w) = initialContent w"
  "editorId (handleClearText c w) = editorId w"
  "clipboardApi (handleClearText c w) = clipboardApi w"
  "editorSettings (handleClearText c w) = editorSettings w"
  "settingsObject (handleClearText c w) = settingsObject w"
  "autoSaveTimerRef (handleClearText c w) = autoSaveTimerRef w"
  "initialLoadDone (handleClearText c w) = initialLoadDone w"
  "autoSaveCleanup (handleClearText c w) = autoSaveCleanup w"
  "now (handleClearText c w) = now w"
  "store (handleClearText c w) = store w"
  "writes (handleClearText c w) = writes w"
  "downloads (handleClearText c w) = downloads w"
  "clipboard (handleClearText c w) = clipboard w"
  "pendingWrites (handleClearText c w) = pendingWrites w"
  "writeTextCalls (handleClearText c w) = writeTextCalls w"
  "consoleErrors (handleClearText c w) = consoleErrors w"
  by (simp_all add: handleClearText_def)


lemma store_autoSaveEffect [simp]:
  "store (autoSaveEffect r w) = store w"
  "writes (autoSaveEffect r w) = writes w"
  "store (autoSaveEffectCleanup w) = store w"
  "writes (autoSaveEffectCleanup w) = writes w"
  by (simp_all add: autoSaveEffect_def setInterval_def Let_def autoSaveEffectCleanup_def)

lemma loadEffect_frame [simp]:
  "initialContent (loadEffect A r w) = initialContent w"
  "editorId (loadEffect A r w) = editorId w"
  "statusMessage (loadEffect A r w) = statusMessage w"
  "autoSaveTimerRef (loadEffect A r w) = autoSaveTimerRef w"
  "autoSaveCleanup (loadEffect A r w) = autoSaveCleanup w"
  "now (loadEffect A r w) = now w"
  "timers (loadEffect A r w) = timers w"
  "nextTimerId (loadEffect A r w) = nextTimerId w"
  "store (loadEffect A r w) = store w"
  "writes (loadEffect A r w) = writes w"
  "downloads (loadEffect A r w) = downloads w"
  "clipboard (loadEffect A r w) = clipboard w"
  "clipboardApi (loadEffect A r w) = clipboardApi w"
  "pendingWrites (loadEffect A r w) = pendingWrites w"
  "writeTextCalls (loadEffect A r w) = writeTextCalls w"
  "consoleErrors (loadEffect A r w) = consoleErrors w"
  "statusLog (loadEffect A r w) = statusLog w"
  by (simp_all add: loadEffect_def Let_def)

lemma loadEffect_loaded [simp]:
  "initialLoadDone (loadEffect A r w) = True"
  "settingsObject (loadEffect A r w) = Suc (settingsObject w)"
  "editorSettings (loadEffect A r w) = loadEditorSettings A (store w) (editorId r)"
  "content (loadEffect A r w) =
     orElse (loadEditorContent A (store w) (editorId r)) (initialContent r)"
  by (simp_all add: loadEffect_def Let_def setEditorSettings_def setContent_def)

text \<open>While the props stay the same the load effect does not run again.\<close>

lemma commit_fixed_props:
  "editorId r = editorId p \<Longrightarrow> initialContent r = initialContent p \<Longrightarrow>
   commit A p r = laterEffects A p r r"
  by (simp add: commit_def)

lemma commit_frame [simp]:
  "initialContent (commit A p r) = initialContent r"
  "editorId (commit A p r) = editorId r"
  "statusMessage (commit A p r) = statusMessage r"
  "now (commit A p r) = now r"
  "downloads (commit A p r) = downloads r"
  "clipboard (commit A p r) = clipboard r"
  "clipboardApi (commit A p r) = clipboardApi r"
  "pendingWrites (commit A p r) = pendingWrites r"
  "writeTextCalls (commit A p r) = writeTextCalls r"
  "consoleErrors (commit A p r) = consoleErrors r"
  "statusLog (commit A p r) = statusLog r"
  by (simp_all add: commit_def)

lemma commit_loaded [simp]:
  "initialLoadDone r \<Longrightarrow> initialLoadDone (commit A p r)"
  by (simp add: commit_def)

lemma commit_hooks [simp]:
  assumes "editorId r = editorId p" "initialContent r = initialContent p"
  shows "content (commit A p r) = content r"
    and "editorSettings (commit A p r) = editorSettings r"
    and "settingsObject (commit A p r) = settingsObject r"
    and "initialLoadDone (commit A p r) = initialLoadDone r"
  using assms by (simp_all add: commit_fixed_props)

lemma laterEffects_unchanged:
  "content r = content p \<Longrightarrow> settingsObject r = settingsObject p \<Longrightarrow>
   autoSaveInterval (editorSettings r) = autoSaveInterval (editorSettings p) \<Longrightarrow>
   editorId r = editorId p \<Longrightarrow> initialLoadDone r = initialLoadDone p \<Longrightarrow>
   laterEffects A p r w = w"
  by (simp add: laterEffects_def)

lemma commit_unchanged:
  "content r = content p \<Longrightarrow> settingsObject r = settingsObject p \<Longrightarrow>
   autoSaveInterval (editorSettings r) = autoSaveInterval (editorSettings p) \<Longrightarrow>
   editorId r = editorId p \<Longrightarrow> initialContent r = initialContent p \<Longrightarrow>
   initialLoadDone r = initialLoadDone p \<Longrightarrow>
   commit A p r = r"
  by (simp add: commit_fixed_props laterEffects_unchanged)

lemma laterEffects_writes:
  "writes (laterEffects A p r w) =
     writes w
     @ (if initialLoadDone r \<and> (content r \<noteq> content p \<or> editorId r \<noteq> editorId p
            \<or> initialLoadDone r \<noteq> initialLoadDone p)
        then [(contentKey A (editorId r), StoredContent (content r))] else [])
     @ (if initialLoadDone r \<and> (settingsObject r \<noteq> settingsObject p \<or> editorId r \<noteq> editorId p
            \<or> initialLoadDone r \<noteq> initialLoadDone p)
        then [(settingsKey A (editorId r), StoredSettings (editorSettings r))] else [])"
  by (simp add: laterEffects_def Let_def saveContentEffect_def saveSettingsEffect_def
      saveFeatureState_def)

lemma commit_writes:
  "editorId r = editorId p \<Longrightarrow> initialContent r = initialContent p \<Longrightarrow>
   writes (commit A p r) =
     writes r
     @ (if initialLoadDone r \<and> (content r \<noteq> content p \<or> editorId r \<noteq> editorId p
            \<or> initialLoadDone r \<noteq> initialLoadDone p)
        then [(contentKey A (editorId r), StoredContent (content r))] else [])
     @ (if initialLoadDone r \<and> (settingsObject r \<noteq> settingsObject p \<or> editorId r \<noteq> editorId p
            \<or> initialLoadDone r \<noteq> initialLoadDone p)
        then [(settingsKey A (editorId r), StoredSettings (editorSettings r))] else [])"
  by (simp add: commit_fixed_props laterEffects_writes)

lemma laterEffects_store:
  "store (laterEffects A p r w) =
     (let s1 = (if initialLoadDone r \<and> (content r \<noteq> content p \<or> editorId r \<noteq> editorId p
                     \<or> initialLoadDone r \<noteq> initialLoadDone p)
                then (store w)(contentKey A (editorId r) \<mapsto> StoredContent (content r))
                else store w)
      in if initialLoadDone r \<and> (settingsObject r \<noteq> settingsObject p \<or> editorId r \<noteq> editorId p
               \<or> initialLoadDone r \<noteq> initialLoadDone p)
         then s1(settingsKey A (editorId r) \<mapsto> StoredSettings (editorSettings r))
         else s1)"
  by (simp add: laterEffects_def Let_def saveContentEffect_def saveSettingsEffect_def
      saveFeatureState_def)

lemma commit_store:
  "editorId r = editorId p \<Longrightarrow> initialContent r = initialContent p \<Longrightarrow>
   store (commit A p r) =
     (let s1 = (if initialLoadDone r \<and> (content r \<noteq> content p \<or> editorId r \<noteq> editorId p
                     \<or> initialLoadDone r \<noteq> initialLoadDone p)
                then (store r)(contentKey A (editorId r) \<mapsto> StoredContent (content r))
                else store r)
      in if initialLoadDone r \<and> (settingsObject r \<noteq> settingsObject p \<or> editorId r \<noteq> editorId p
               \<or> initialLoadDone r \<noteq> initialLoadDone p)
         then s1(settingsKey A (editorId r) \<mapsto> StoredSettings (editorSettings r))
         else s1)"
  by (simp add: commit_fixed_props laterEffects_store)

lemma showStatusMessage_status [simp]:
  "statusMessage (showStatusMessage m w) = m"
  "statusLog (showStatusMessage m w) = statusLog w @ [(now w, m)]"
  "timers (showStatusMessage m w) =
     timers w @ [\<lparr>timerId = nextTimerId w, due = now w + 2000, period = None,
                  callback = ClearStatus\<rparr>]"
  "nextTimerId (showStatusMessage m w) = Suc (nextTimerId w)"
  by (simp_all add: showStatusMessage_def setTimeout_def setStatusMessage_def)

lemma fold_updateSetting_frame [simp]:
  "initialContent (fold updateSetting kvs w) = initialContent w"
  "editorId (fold updateSetting kvs w) = editorId w"
  "clipboardApi (fold updateSetting kvs w) = clipboardApi w"
  "content (fold updateSetting kvs w) = content w"
  "statusMessage (fold updateSetting kvs w) = statusMessage w"
  "autoSaveTimerRef (fold updateSetting kvs w) = autoSaveTimerRef w"
  "initialLoadDone (fold updateSetting kvs w) = initialLoadDone w"
  "autoSaveCleanup (fold updateSetting kvs w) = autoSaveCleanup w"
  "now (fold updateSetting kvs w) = now w"
  "timers (fold updateSetting kvs w) = timers w"
  "nextTimerId (fold updateSetting kvs w) = nextTimerId w"
  "store (fold updateSetting kvs w) = store w"
  "writes (fold updateSetting kvs w) = writes w"
  "downloads (fold updateSetting kvs w) = downloads w"
  "clipboard (fold updateSetting kvs w) = clipboard w"
  "pendingWrites (fold updateSetting kvs w) = pendingWrites w"
  "writeTextCalls (fold updateSetting kvs w) = writeTextCalls w"
  "consoleErrors (fold updateSetting kvs w) = consoleErrors w"
  "statusLog (fold updateSetting kvs w) = statusLog w"
  by (induction kvs arbitrary: w) simp_all

lemma fold_updateSetting_settings:
  "editorSettings (fold updateSetting kvs w) = fold spread kvs (editorSettings w)"
  "settingsObject (fold updateSetting kvs w) = settingsObject w + length kvs"
  by (induction kvs arbitrary: w) (simp_all add: updateSetting_def setEditorSettings_def)

section \<open>Settings updates\<close>

lemma readSetting_spread_same: "readSetting (keyOf kv) (spread kv s) = kv"
  by (cases kv) simp_all

lemma readSetting_spread_other:
  "k \<noteq> keyOf kv \<Longrightarrow> readSetting k (spread kv s) = readSetting k s"
  by (cases kv; cases k) simp_all

text \<open>
  C2. \<open>updateSetting(k, v)\<close> sets field \<open>k\<close> of the settings record to \<open>v\<close> and leaves
  every other field as it was; in a loaded editor the commit that follows saves the new
  settings record, once, under the settings key, and saves nothing else.
\<close>

theorem updateSetting_merges_and_saves:
  "readSetting (keyOf kv) (editorSettings (updateSetting kv w)) = kv
   \<and> (\<forall>k. k \<noteq> keyOf kv \<longrightarrow>
          readSetting k (editorSettings (updateSetting kv w)) = readSetting k (editorSettings w))
   \<and> (initialLoadDone w \<longrightarrow>
        editorSettings (handle A (SettingsChanged [kv]) w) = spread kv (editorSettings w)
        \<and> writes (handle A (SettingsChanged [kv]) w) =
            writes w @ [(settingsKey A (editorId w), StoredSettings (spread kv (editorSettings w)))]
        \<and> store (handle A (SettingsChanged [kv]) w) (settingsKey A (editorId w)) =
            Some (StoredSettings (spread kv (editorSettings w))))"
proof -
  have es: "editorSettings (updateSetting kv w) = spread kv (editorSettings w)"
    by (simp add: updateSetting_def setEditorSettings_def)
  have so: "settingsObject (updateSetting kv w) \<noteq> settingsObject w"
    by (simp add: updateSetting_def setEditorSettings_def)
  have st: "initialLoadDone w \<Longrightarrow>
      store (commit A w (updateSetting kv w)) (settingsKey A (editorId w)) =
        Some (StoredSettings (spread kv (editorSettings w)))"
    using so es by (simp add: commit_store Let_def)
  show ?thesis
    using so st
    by (simp add: es readSetting_spread_same readSetting_spread_other commit_writes)
qed


section \<open>Mounting\<close>

lemma firstRender_simps [simp]:
  "initialContent (firstRender A props st) =
     (case initialContentProp props of None \<Rightarrow> [] | Some c \<Rightarrow> c)"
  "editorId (firstRender A props st) =
     (case editorIdProp props of None \<Rightarrow> ''default'' | Some e \<Rightarrow> e)"
  "content (firstRender A props st) = []"
  "editorSettings (firstRender A props st) = defaultEditorSettings A"
  "settingsObject (firstRender A props st) = 0"
  "statusMessage (firstRender A props st) = []"
  "autoSaveTimerRef (firstRender A props st) = None"
  "initialLoadDone (firstRender A props st) = False"
  "autoSaveCleanup (firstRender A props st) = False"
  "now (firstRender A props st) = 0"
  "timers (firstRender A props st) = []"
  "nextTimerId (firstRender A props st) = 1"
  "store (firstRender A props st) = st"
  "writes (firstRender A props st) = []"
  "downloads (firstRender A props st) = []"
  "clipboard (firstRender A props st) = None"
  "clipboardApi (firstRender A props st) = True"
  "pendingWrites (firstRender A props st) = []"
  "writeTextCalls (firstRender A props st) = []"
  "consoleErrors (firstRender A props st) = 0"
  "statusLog (firstRender A props st) = []"
  by (simp_all add: firstRender_def)

text \<open>Before the load, the effects of the first render neither save nor arm a timer.\<close>

lemma mountEffects_unloaded:
  assumes "\<not> initialLoadDone r"
  shows "writes (mountEffects A r) = writes r"
    and "store (mountEffects A r) = store r"
    and "timers (mountEffects A r) = timers (clearAutoSaveTimer r)"
    and "nextTimerId (mountEffects A r) = nextTimerId r"
    and "autoSaveTimerRef (mountEffects A r) = autoSaveTimerRef r"
    and "autoSaveCleanup (mountEffects A r) = False"
  using assms
  by (simp_all add: mountEffects_def autoSaveEffect_def saveContentEffect_def
      saveSettingsEffect_def clearAutoSaveTimer_def clearInterval_def split: option.splits)

lemma mountEffects_frame [simp]:
  "initialContent (mountEffects A r) = initialContent r"
  "editorId (mountEffects A r) = editorId r"
  "clipboardApi (mountEffects A r) = clipboardApi r"
  "statusMessage (mountEffects A r) = statusMessage r"
  "now (mountEffects A r) = now r"
  "downloads (mountEffects A r) = downloads r"
  "clipboard (mountEffects A r) = clipboard r"
  "pendingWrites (mountEffects A r) = pendingWrites r"
  "writeTextCalls (mountEffects A r) = writeTextCalls r"
  "consoleErrors (mountEffects A r) = consoleErrors r"
  "statusLog (mountEffects A r) = statusLog r"
  "initialLoadDone (mountEffects A r) = True"
  "settingsObject (mountEffects A r) = Suc (settingsObject r)"
  "editorSettings (mountEffects A r) = loadEditorSettings A (store r) (editorId r)"
  "content (mountEffects A r) =
     orElse (loadEditorContent A (store r) (editorId r)) (initialContent r)"
  by (simp_all add: mountEffects_def)

lemma mount_simps:
  "initialLoadDone (mount A props st) = True"
  "editorId (mount A props st) =
     (case editorIdProp props of None \<Rightarrow> ''default'' | Some e \<Rightarrow> e)"
  "initialContent (mount A props st) =
     (case initialContentProp props of None \<Rightarrow> [] | Some c \<Rightarrow> c)"
  "content (mount A props st) =
     orElse (loadEditorContent A st (editorId (mount A props st)))
       (initialContent (mount A props st))"
  "editorSettings (mount A props st) =
     loadEditorSettings A st (editorId (mount A props st))"
  "statusMessage (mount A props st) = []"
  "now (mount A props st) = 0"
  "downloads (mount A props st) = []"
  "clipboard (mount A props st) = None"
  "clipboardApi (mount A props st) = True"
  "pendingWrites (mount A props st) = []"
  "writeTextCalls (mount A props st) = []"
  "statusLog (mount A props st) = []"
  by (simp_all add: mount_def Let_def)

lemma mount_writes:
  "writes (mount A props st) =
     [(contentKey A (editorId (mount A props st)), StoredContent (content (mount A props st))),
      (settingsKey A (editorId (mount A props st)),
       StoredSettings (editorSettings (mount A props st)))]"
  by (simp add: mount_def Let_def commit_writes mountEffects_unloaded)

lemma exampleEditor_simps:
  "initialLoadDone exampleEditor"
  "editorId exampleEditor = ''notes''"
  "content exampleEditor = ''hello''"
  "editorSettings exampleEditor = exampleSettings"
  "statusMessage exampleEditor = []"
  "now exampleEditor = 0"
  "downloads exampleEditor = []"
  "pendingWrites exampleEditor = []"
  "writeTextCalls exampleEditor = []"
  "clipboard exampleEditor = None"
  "clipboardApi exampleEditor"
  by (simp_all add: exampleEditor_def mount_simps exampleProps_def exampleAtoms_def
      loadEditorContent_def loadEditorSettings_def)

section \<open>Export, clipboard and keyboard shortcuts\<close>

text \<open>
  C7. \<open>saveToFile()\<close> downloads a \<open>text/plain\<close> file named \<open>{editorId}_note.txt\<close>
  whose body is the current content, and shows a status message whose clearing is
  scheduled two seconds later; content and store are untouched.
\<close>

theorem saveToFile_downloads_note:
  "downloads (handle A SaveClicked w) =
     downloads w @ [\<lparr>filename = editorId w @ ''_note.txt'', mimeType = ''text/plain'',
                     body = content w\<rparr>]
   \<and> statusMessage (handle A SaveClicked w) = ''Content saved to file''
   \<and> timers (handle A SaveClicked w) =
       timers w @ [\<lparr>timerId = nextTimerId w, due = now w + 2000, period = None,
                    callback = ClearStatus\<rparr>]
   \<and> content (handle A SaveClicked w) = content w
   \<and> writes (handle A SaveClicked w) = writes w"
proof -
  have "handle A SaveClicked w = handleSaveToFile w"
    by (simp add: commit_unchanged)
  then show ?thesis
    by (simp add: handleSaveToFile_def)
qed

theorem saveToFile_example:
  "downloads (handle exampleAtoms SaveClicked exampleEditor) =
     [\<lparr>filename = ''notes_note.txt'', mimeType = ''text/plain'', body = ''hello''\<rparr>]
   \<and> statusMessage (handle exampleAtoms SaveClicked exampleEditor) = ''Content saved to file''"
  using saveToFile_downloads_note [of exampleAtoms exampleEditor]
  by (simp add: exampleEditor_simps)

lemma preventDefault_simps [simp]:
  "defaultPrevented (preventDefault e) = True"
  "ctrlKey (preventDefault e) = ctrlKey e"
  "key (preventDefault e) = key e"
  by (simp_all add: preventDefault_def)

lemma handleKeyDown_eq:
  "handleKeyDown e sel w =
     (if ctrlKey e \<and> key e = ''s'' then (preventDefault e, handleSaveToFile w)
      else if ctrlKey e \<and> key e = ''c'' \<and> sel = Some []
           then (preventDefault e, handleCopyToClipboard w)
           else (e, w))"
proof (cases "ctrlKey e \<and> key e = ''s''")
  case True
  then have k: "key e \<noteq> ''c''"
    by auto
  show ?thesis
    unfolding handleKeyDown_def if_P [OF True] using True k by simp
next
  case False
  show ?thesis
    unfolding handleKeyDown_def if_not_P [OF False] by simp
qed

text \<open>
  C8, as the code has it. Ctrl+S prevents the default and saves to file. Ctrl+C prevents
  the default and copies exactly when \<open>window.getSelection()\<close> returns a selection
  whose text is empty; with selected text, and with no selection object at all, the event
  passes through untouched, as does every other key.
\<close>

theorem keydown_shortcuts:
  "(ctrlKey e \<and> key e = ''s'' \<longrightarrow>
      handleKeyDown e sel w = (preventDefault e, handleSaveToFile w))
   \<and> (ctrlKey e \<and> key e = ''c'' \<and> sel = Some [] \<longrightarrow>
      handleKeyDown e sel w = (preventDefault e, handleCopyToClipboard w))
   \<and> (ctrlKey e \<and> key e = ''c'' \<and> sel \<noteq> Some [] \<longrightarrow> handleKeyDown e sel w = (e, w))
   \<and> (\<not> (ctrlKey e \<and> (key e = ''s'' \<or> key e = ''c'')) \<longrightarrow> handleKeyDown e sel w = (e, w))"
proof -
  have s: "handleKeyDown e sel w = (preventDefault e, handleSaveToFile w)"
    if "ctrlKey e \<and> key e = ''s''"
    unfolding handleKeyDown_eq if_P [OF that] by (rule refl)
  have c: "handleKeyDown e sel w = (preventDefault e, handleCopyToClipboard w)"
    if "ctrlKey e \<and> key e = ''c'' \<and> sel = Some []"
  proof -
    have n: "\<not> (ctrlKey e \<and> key e = ''s'')"
      using that by simp
    show ?thesis
      unfolding handleKeyDown_eq if_not_P [OF n] if_P [OF that] by (rule refl)
  qed
  have c': "handleKeyDown e sel w = (e, w)" if "ctrlKey e \<and> key e = ''c'' \<and> sel \<noteq> Some []"
  proof -
    have n: "\<not> (ctrlKey e \<and> key e = ''s'')"
      and m: "\<not> (ctrlKey e \<and> key e = ''c'' \<and> sel = Some [])"
      using that by simp_all
    show ?thesis
      unfolding handleKeyDown_eq if_not_P [OF n] if_not_P [OF m] by (rule refl)
  qed
  have o: "handleKeyDown e sel w = (e, w)" if "\<not> (ctrlKey e \<and> (key e = ''s'' \<or> key e = ''c''))"
  proof -
    have n: "\<not> (ctrlKey e \<and> key e = ''s'')"
      and m: "\<not> (ctrlKey e \<and> key e = ''c'' \<and> sel = Some [])"
      using that by auto
    show ?thesis
      unfolding handleKeyDown_eq if_not_P [OF n] if_not_P [OF m] by (rule refl)
  qed
  from s c c' o show ?thesis
    by blast
qed

theorem keydown_shortcuts_witness:
  "handleKeyDown ctrlS (Some ''abc'') exampleEditor =
     (preventDefault ctrlS, handleSaveToFile exampleEditor)
   \<and> handleKeyDown ctrlC (Some []) exampleEditor =
     (preventDefault ctrlC, handleCopyToClipboard exampleEditor)
   \<and> handleKeyDown ctrlC (Some ''abc'') exampleEditor = (ctrlC, exampleEditor)
   \<and> handleKeyDown (ctrlC\<lparr>key := ''x''\<rparr>) (Some []) exampleEditor
       = (ctrlC\<lparr>key := ''x''\<rparr>, exampleEditor)"
  using keydown_shortcuts [of ctrlS "Some ''abc''" exampleEditor]
    keydown_shortcuts [of ctrlC "Some []" exampleEditor]
    keydown_shortcuts [of ctrlC "Some ''abc''" exampleEditor]
    keydown_shortcuts [of "ctrlC\<lparr>key := ''x''\<rparr>" "Some []" exampleEditor]
  by (simp add: ctrlS_def ctrlC_def)

text \<open>
  Against C8 as stated: with Ctrl+C and no selection in the document at all
  (\<open>getSelection()\<close> is \<open>null\<close>), nothing is copied and the default is not prevented.
\<close>

theorem keydown_no_selection_object_counterexample:
  "ctrlKey ctrlC \<and> key ctrlC = ''c''
   \<and> \<not> defaultPrevented (fst (handleKeyDown ctrlC None exampleEditor))
   \<and> writeTextCalls (snd (handleKeyDown ctrlC None exampleEditor)) = []"
  by (simp add: handleKeyDown_eq ctrlC_def exampleEditor_simps)

text \<open>
  C10. On Ctrl+C with \<open>getSelection()\<close> returning \<open>null\<close>, \<open>copyToClipboard\<close> is not
  called and the default is not prevented: event and editor are as before.
\<close>

theorem keydown_null_selection:
  "ctrlKey e \<Longrightarrow> key e = ''c'' \<Longrightarrow> handleKeyDown e None w = (e, w)"
  by (simp add: handleKeyDown_eq)

theorem keydown_null_selection_witness:
  "ctrlKey ctrlC \<and> key ctrlC = ''c'' \<and> handleKeyDown ctrlC None exampleEditor = (ctrlC, exampleEditor)"
proof -
  have c: "ctrlKey ctrlC" and k: "key ctrlC = ''c''"
    by (simp_all add: ctrlC_def)
  from keydown_null_selection [OF c k] c k show ?thesis by simp
qed

text \<open>
  C9, as the code has it. For every invocation of \<open>copyToClipboard()\<close>, in any state: where
  \<open>navigator.clipboard\<close> is defined, \<open>writeText\<close> is called once with the whole
  current content, its promise is pending (the last of the pending ones), and nothing
  else changes until it settles; where it is undefined there is no call, the failure
  message is shown at once and an error logged. When a pending write is rejected,
  whichever it is and whatever happened meanwhile, the failure message is shown and an
  error logged; there is no further call, and content, settings, store and clipboard are
  as before. When it is fulfilled, the clipboard holds the text the call was made with.
\<close>

theorem copyToClipboard_contract:
  "(clipboardApi w \<longrightarrow>
      handle A CopyClicked w =
        w\<lparr>pendingWrites := pendingWrites w @ [content w],
          writeTextCalls := writeTextCalls w @ [content w]\<rparr>
      \<and> pendingWrites (handle A CopyClicked w) ! length (pendingWrites w) = content w)
   \<and> (\<not> clipboardApi w \<longrightarrow>
      handle A CopyClicked w =
        showStatusMessage ''Failed to copy content!'' (w\<lparr>consoleErrors := Suc (consoleErrors w)\<rparr>)
      \<and> statusMessage (handle A CopyClicked w) = ''Failed to copy content!''
      \<and> writeTextCalls (handle A CopyClicked w) = writeTextCalls w
      \<and> pendingWrites (handle A CopyClicked w) = pendingWrites w
      \<and> content (handle A CopyClicked w) = content w
      \<and> editorSettings (handle A CopyClicked w) = editorSettings w
      \<and> store (handle A CopyClicked w) = store w
      \<and> clipboard (handle A CopyClicked w) = clipboard w)
   \<and> (i < length (pendingWrites v) \<longrightarrow>
        (let v2 = handle A (WriteTextSettled i False) v
         in statusMessage v2 = ''Failed to copy content!''
            \<and> consoleErrors v2 = Suc (consoleErrors v)
            \<and> writeTextCalls v2 = writeTextCalls v
            \<and> pendingWrites v2 = take i (pendingWrites v) @ drop (Suc i) (pendingWrites v)
            \<and> content v2 = content v
            \<and> editorSettings v2 = editorSettings v
            \<and> store v2 = store v
            \<and> writes v2 = writes v
            \<and> clipboard v2 = clipboard v)
        \<and> (let v2 = handle A (WriteTextSettled i True) v
           in statusMessage v2 = ''Content copied to clipboard!''
              \<and> clipboard v2 = Some (pendingWrites v ! i)
              \<and> writeTextCalls v2 = writeTextCalls v
              \<and> pendingWrites v2 = take i (pendingWrites v) @ drop (Suc i) (pendingWrites v)
              \<and> content v2 = content v
              \<and> editorSettings v2 = editorSettings v))"
proof -
  have call: "handle A CopyClicked w = handleCopyToClipboard w"
    by (simp add: commit_unchanged)
  have settle: "handle A (WriteTextSettled i ok) v = writeTextSettled i ok v" for ok
    by (simp add: commit_unchanged)
  have a: "handleCopyToClipboard w =
        w\<lparr>pendingWrites := pendingWrites w @ [content w],
          writeTextCalls := writeTextCalls w @ [content w]\<rparr>
      \<and> pendingWrites (handleCopyToClipboard w) ! length (pendingWrites w) = content w"
    if "clipboardApi w"
    using that by (simp add: handleCopyToClipboard_def)
  have b: "handleCopyToClipboard w =
        showStatusMessage ''Failed to copy content!'' (w\<lparr>consoleErrors := Suc (consoleErrors w)\<rparr>)"
    if "\<not> clipboardApi w"
    using that by (simp add: handleCopyToClipboard_def)
  have c: "statusMessage (writeTextSettled i False v) = ''Failed to copy content!''"
    "consoleErrors (writeTextSettled i False v) = Suc (consoleErrors v)"
    "pendingWrites (writeTextSettled i False v) =
       take i (pendingWrites v) @ drop (Suc i) (pendingWrites v)"
    "clipboard (writeTextSettled i False v) = clipboard v"
    "statusMessage (writeTextSettled i True v) = ''Content copied to clipboard!''"
    "clipboard (writeTextSettled i True v) = Some (pendingWrites v ! i)"
    "pendingWrites (writeTextSettled i True v) =
       take i (pendingWrites v) @ drop (Suc i) (pendingWrites v)"
    if "i < length (pendingWrites v)"
    using that by (simp_all add: writeTextSettled_def Let_def)
  show ?thesis
    unfolding call settle Let_def using a b c by simp
qed

theorem copyToClipboard_contract_witness:
  "clipboardApi exampleEditor
   \<and> pendingWrites (handle exampleAtoms CopyClicked exampleEditor) = [''hello'']
   \<and> writeTextCalls (handle exampleAtoms CopyClicked exampleEditor) = [''hello'']
   \<and> \<not> clipboardApi (exampleEditor\<lparr>clipboardApi := False\<rparr>)
   \<and> statusMessage (handle exampleAtoms CopyClicked (exampleEditor\<lparr>clipboardApi := False\<rparr>))
       = ''Failed to copy content!''
   \<and> writeTextCalls (handle exampleAtoms CopyClicked (exampleEditor\<lparr>clipboardApi := False\<rparr>))
       = []
   \<and> 1 < length (pendingWrites (exampleEditor\<lparr>pendingWrites := [''old'', ''hello'']\<rparr>))
   \<and> statusMessage (handle exampleAtoms (WriteTextSettled 1 False)
        (exampleEditor\<lparr>pendingWrites := [''old'', ''hello'']\<rparr>)) = ''Failed to copy content!''
   \<and> pendingWrites (handle exampleAtoms (WriteTextSettled 1 False)
        (exampleEditor\<lparr>pendingWrites := [''old'', ''hello'']\<rparr>)) = [''old'']
   \<and> content (handle exampleAtoms (WriteTextSettled 1 False)
        (exampleEditor\<lparr>pendingWrites := [''old'', ''hello'']\<rparr>)) = ''hello''
   \<and> clipboard (handle exampleAtoms (WriteTextSettled 1 True)
        (exampleEditor\<lparr>pendingWrites := [''old'', ''hello'']\<rparr>)) = Some ''hello''"
proof -
  note t1 = copyToClipboard_contract [of exampleEditor exampleAtoms 1
      "exampleEditor\<lparr>pendingWrites := [''old'', ''hello'']\<rparr>"]
  note t2 = copyToClipboard_contract [of "exampleEditor\<lparr>clipboardApi := False\<rparr>" exampleAtoms 1
      "exampleEditor\<lparr>pendingWrites := [''old'', ''hello'']\<rparr>"]
  have 1: "clipboardApi exampleEditor
     \<and> pendingWrites (handle exampleAtoms CopyClicked exampleEditor) = [''hello'']
     \<and> writeTextCalls (handle exampleAtoms CopyClicked exampleEditor) = [''hello'']"
    using t1 by (simp add: exampleEditor_simps)
  have 2: "\<not> clipboardApi (exampleEditor\<lparr>clipboardApi := False\<rparr>)
     \<and> statusMessage (handle exampleAtoms CopyClicked (exampleEditor\<lparr>clipboardApi := False\<rparr>))
         = ''Failed to copy content!''
     \<and> writeTextCalls (handle exampleAtoms CopyClicked (exampleEditor\<lparr>clipboardApi := False\<rparr>))
         = []"
    using t2 by (simp add: exampleEditor_simps)
  have 3: "1 < length (pendingWrites (exampleEditor\<lparr>pendingWrites := [''old'', ''hello'']\<rparr>))
     \<and> statusMessage (handle exampleAtoms (WriteTextSettled 1 False)
        (exampleEditor\<lparr>pendingWrites := [''old'', ''hello'']\<rparr>)) = ''Failed to copy content!''
     \<and> pendingWrites (handle exampleAtoms (WriteTextSettled 1 False)
        (exampleEditor\<lparr>pendingWrites := [''old'', ''hello'']\<rparr>)) = [''old'']
     \<and> content (handle exampleAtoms (WriteTextSettled 1 False)
        (exampleEditor\<lparr>pendingWrites := [''old'', ''hello'']\<rparr>)) = ''hello''
     \<and> clipboard (handle exampleAtoms (WriteTextSettled 1 True)
        (exampleEditor\<lparr>pendingWrites := [''old'', ''hello'']\<rparr>)) = Some ''hello''"
    using t1 by (simp add: exampleEditor_simps Let_def)
  from 1 2 3 show ?thesis
    by blast
qed

text \<open>
  An invocation that writes nothing: with \<open>navigator.clipboard\<close> undefined, a click on
  Copy calls \<open>writeText\<close> not at all, leaves no promise pending and the clipboard as it
  was, and shows the failure message in the same turn.
\<close>

theorem clipboard_undefined_counterexample:
  "(let w = handle exampleAtoms CopyClicked
              (handle exampleAtoms (ClipboardApi False) exampleEditor)
    in writeTextCalls w = []
       \<and> pendingWrites w = []
       \<and> clipboard w = None
       \<and> content w = ''hello''
       \<and> statusMessage w = ''Failed to copy content!'')"
proof -
  let ?v = "handle exampleAtoms (ClipboardApi False) exampleEditor"
  have v: "?v = exampleEditor\<lparr>clipboardApi := False\<rparr>"
    by simp
  have "handle exampleAtoms CopyClicked ?v = handleCopyToClipboard ?v"
    unfolding v by (simp add: commit_unchanged)
  also have "\<dots> = showStatusMessage ''Failed to copy content!''
      (exampleEditor\<lparr>clipboardApi := False, consoleErrors := Suc (consoleErrors exampleEditor)\<rparr>)"
    unfolding v by (simp add: handleCopyToClipboard_def)
  finally show ?thesis
    unfolding Let_def by (simp add: exampleEditor_simps showStatusMessage_status)
qed


section \<open>Timers never touch content, settings or the store\<close>

text \<open>A timer callback sets the status message only, which no effect depends on.\<close>

lemma runCallback_eq:
  "runCallback A cb w =
     (case cb of ClearStatus \<Rightarrow> setStatusMessage [] w
               | AutoSaved \<Rightarrow> showStatusMessage ''Auto-saved'' w)"
  by (cases cb) (simp_all add: runCallback_def commit_unchanged)

lemma fire_frame [simp]:
  "initialContent (fire A t w) = initialContent w"
  "editorId (fire A t w) = editorId w"
  "clipboardApi (fire A t w) = clipboardApi w"
  "content (fire A t w) = content w"
  "editorSettings (fire A t w) = editorSettings w"
  "settingsObject (fire A t w) = settingsObject w"
  "autoSaveTimerRef (fire A t w) = autoSaveTimerRef w"
  "initialLoadDone (fire A t w) = initialLoadDone w"
  "autoSaveCleanup (fire A t w) = autoSaveCleanup w"
  "now (fire A t w) = now w"
  "store (fire A t w) = store w"
  "writes (fire A t w) = writes w"
  "downloads (fire A t w) = downloads w"
  "clipboard (fire A t w) = clipboard w"
  "pendingWrites (fire A t w) = pendingWrites w"
  "writeTextCalls (fire A t w) = writeTextCalls w"
  "consoleErrors (fire A t w) = consoleErrors w"
  by (simp_all add: fire_def runCallback_eq split: option.splits Callback.splits)

lemma fold_fire_frame [simp]:
  "initialContent (fold (fire A) ts w) = initialContent w"
  "editorId (fold (fire A) ts w) = editorId w"
  "clipboardApi (fold (fire A) ts w) = clipboardApi w"
  "content (fold (fire A) ts w) = content w"
  "editorSettings (fold (fire A) ts w) = editorSettings w"
  "settingsObject (fold (fire A) ts w) = settingsObject w"
  "autoSaveTimerRef (fold (fire A) ts w) = autoSaveTimerRef w"
  "initialLoadDone (fold (fire A) ts w) = initialLoadDone w"
  "autoSaveCleanup (fold (fire A) ts w) = autoSaveCleanup w"
  "now (fold (fire A) ts w) = now w"
  "store (fold (fire A) ts w) = store w"
  "writes (fold (fire A) ts w) = writes w"
  "downloads (fold (fire A) ts w) = downloads w"
  "clipboard (fold (fire A) ts w) = clipboard w"
  "pendingWrites (fold (fire A) ts w) = pendingWrites w"
  "writeTextCalls (fold (fire A) ts w) = writeTextCalls w"
  "consoleErrors (fold (fire A) ts w) = consoleErrors w"
  by (induction ts arbitrary: w) simp_all

lemma tick_frame [simp]:
  "initialContent (tick A w) = initialContent w"
  "editorId (tick A w) = editorId w"
  "clipboardApi (tick A w) = clipboardApi w"
  "content (tick A w) = content w"
  "editorSettings (tick A w) = editorSettings w"
  "settingsObject (tick A w) = settingsObject w"
  "autoSaveTimerRef (tick A w) = autoSaveTimerRef w"
  "initialLoadDone (tick A w) = initialLoadDone w"
  "autoSaveCleanup (tick A w) = autoSaveCleanup w"
  "store (tick A w) = store w"
  "writes (tick A w) = writes w"
  "downloads (tick A w) = downloads w"
  "clipboard (tick A w) = clipboard w"
  "pendingWrites (tick A w) = pendingWrites w"
  "writeTextCalls (tick A w) = writeTextCalls w"
  "consoleErrors (tick A w) = consoleErrors w"
  by (simp_all add: tick_def Let_def)

lemma advance_frame [simp]:
  "initialContent (advance A n w) = initialContent w"
  "editorId (advance A n w) = editorId w"
  "clipboardApi (advance A n w) = clipboardApi w"
  "content (advance A n w) = content w"
  "editorSettings (advance A n w) = editorSettings w"
  "settingsObject (advance A n w) = settingsObject w"
  "autoSaveTimerRef (advance A n w) = autoSaveTimerRef w"
  "initialLoadDone (advance A n w) = initialLoadDone w"
  "autoSaveCleanup (advance A n w) = autoSaveCleanup w"
  "store (advance A n w) = store w"
  "writes (advance A n w) = writes w"
  "downloads (advance A n w) = downloads w"
  "clipboard (advance A n w) = clipboard w"
  "pendingWrites (advance A n w) = pendingWrites w"
  "writeTextCalls (advance A n w) = writeTextCalls w"
  "consoleErrors (advance A n w) = consoleErrors w"
  by (induction n arbitrary: w) simp_all


lemma now_tick [simp]: "now (tick A w) = Suc (now w)"
  by (simp add: tick_def Let_def)

lemma now_advance [simp]: "now (advance A n w) = now w + n"
  by (induction n arbitrary: w) simp_all

lemma advance_add: "advance A (m + n) w = advance A n (advance A m w)"
  by (induction m arbitrary: w) simp_all

lemma advance_Suc_right: "advance A (Suc n) w = tick A (advance A n w)"
  using advance_add [of A n 1 w] by simp

section \<open>Saving on change\<close>

lemma handleKeyDown_frame [simp]:
  "editorId (snd (handleKeyDown e sel w)) = editorId w"
  "clipboardApi (snd (handleKeyDown e sel w)) = clipboardApi w"
  "initialContent (snd (handleKeyDown e sel w)) = initialContent w"
  "initialLoadDone (snd (handleKeyDown e sel w)) = initialLoadDone w"
  "content (snd (handleKeyDown e sel w)) = content w"
  "editorSettings (snd (handleKeyDown e sel w)) = editorSettings w"
  "settingsObject (snd (handleKeyDown e sel w)) = settingsObject w"
  "autoSaveTimerRef (snd (handleKeyDown e sel w)) = autoSaveTimerRef w"
  "autoSaveCleanup (snd (handleKeyDown e sel w)) = autoSaveCleanup w"
  "now (snd (handleKeyDown e sel w)) = now w"
  "store (snd (handleKeyDown e sel w)) = store w"
  "writes (snd (handleKeyDown e sel w)) = writes w"
  by (simp_all add: handleKeyDown_eq)

lemma applyProps_frame [simp]:
  "content (applyProps props w) = content w"
  "editorSettings (applyProps props w) = editorSettings w"
  "settingsObject (applyProps props w) = settingsObject w"
  "statusMessage (applyProps props w) = statusMessage w"
  "autoSaveTimerRef (applyProps props w) = autoSaveTimerRef w"
  "initialLoadDone (applyProps props w) = initialLoadDone w"
  "autoSaveCleanup (applyProps props w) = autoSaveCleanup w"
  "now (applyProps props w) = now w"
  "timers (applyProps props w) = timers w"
  "nextTimerId (applyProps props w) = nextTimerId w"
  "store (applyProps props w) = store w"
  "writes (applyProps props w) = writes w"
  "downloads (applyProps props w) = downloads w"
  "clipboard (applyProps props w) = clipboard w"
  "clipboardApi (applyProps props w) = clipboardApi w"
  "pendingWrites (applyProps props w) = pendingWrites w"
  "writeTextCalls (applyProps props w) = writeTextCalls w"
  "consoleErrors (applyProps props w) = consoleErrors w"
  "statusLog (applyProps props w) = statusLog w"
  by (simp_all add: applyProps_def)

lemma applyProps_props [simp]:
  "editorId (applyProps props w) = (case editorIdProp props of None \<Rightarrow> ''default'' | Some e \<Rightarrow> e)"
  "initialContent (applyProps props w) =
     (case initialContentProp props of None \<Rightarrow> [] | Some c \<Rightarrow> c)"
  by (simp_all add: applyProps_def)

lemma handle_loaded [simp]: "initialLoadDone w \<Longrightarrow> initialLoadDone (handle A ev w)"
  by (cases ev) (simp_all add: Let_def)

lemma run_loaded [simp]: "initialLoadDone w \<Longrightarrow> initialLoadDone (run A evs w)"
  unfolding run_def by (induction evs arbitrary: w) simp_all

lemma handle_props:
  assumes "\<not> propsEvent ev"
  shows "editorId (handle A ev w) = editorId w"
    and "initialContent (handle A ev w) = initialContent w"
    and "initialLoadDone (handle A ev w) = initialLoadDone w"
  using assms by (cases ev; simp)+




text \<open>What a change of props writes in a loaded editor, in its two commits.\<close>

lemma props_first_commit:
  assumes "initialLoadDone w" and r: "r = applyProps props w"
  shows "writes (commit A w r) =
      writes w @ (if editorId r \<noteq> editorId w
                  then [(contentKey A (editorId r), StoredContent (content w)),
                        (settingsKey A (editorId r), StoredSettings (editorSettings w))]
                  else [])"
    and "store (commit A w r) =
      (if editorId r \<noteq> editorId w
       then (store w)(contentKey A (editorId r) \<mapsto> StoredContent (content w),
                      settingsKey A (editorId r) \<mapsto> StoredSettings (editorSettings w))
       else store w)"
    and "content (commit A w r) =
      (if editorId r \<noteq> editorId w \<or> initialContent r \<noteq> initialContent w
       then orElse (loadEditorContent A (store w) (editorId r)) (initialContent r)
       else content w)"
    and "editorSettings (commit A w r) =
      (if editorId r \<noteq> editorId w \<or> initialContent r \<noteq> initialContent w
       then loadEditorSettings A (store w) (editorId r) else editorSettings w)"
    and "settingsObject (commit A w r) =
      (if editorId r \<noteq> editorId w \<or> initialContent r \<noteq> initialContent w
       then Suc (settingsObject w) else settingsObject w)"
    and "initialLoadDone (commit A w r)"
proof -
  have rw: "content r = content w" "settingsObject r = settingsObject w"
    "initialLoadDone r" "editorSettings r = editorSettings w" "store r = store w"
    "writes r = writes w"
    using assms by simp_all
  show "writes (commit A w r) =
      writes w @ (if editorId r \<noteq> editorId w
                  then [(contentKey A (editorId r), StoredContent (content w)),
                        (settingsKey A (editorId r), StoredSettings (editorSettings w))]
                  else [])"
    using rw assms(1) by (simp add: commit_def laterEffects_writes)
  show "store (commit A w r) =
      (if editorId r \<noteq> editorId w
       then (store w)(contentKey A (editorId r) \<mapsto> StoredContent (content w),
                      settingsKey A (editorId r) \<mapsto> StoredSettings (editorSettings w))
       else store w)"
    using rw assms(1) by (simp add: commit_def laterEffects_store Let_def)
  show "content (commit A w r) =
      (if editorId r \<noteq> editorId w \<or> initialContent r \<noteq> initialContent w
       then orElse (loadEditorContent A (store w) (editorId r)) (initialContent r)
       else content w)"
    using rw by (simp add: commit_def)
  show "editorSettings (commit A w r) =
      (if editorId r \<noteq> editorId w \<or> initialContent r \<noteq> initialContent w
       then loadEditorSettings A (store w) (editorId r) else editorSettings w)"
    using rw by (simp add: commit_def)
  show "settingsObject (commit A w r) =
      (if editorId r \<noteq> editorId w \<or> initialContent r \<noteq> initialContent w
       then Suc (settingsObject w) else settingsObject w)"
    using rw by (simp add: commit_def)
  show "initialLoadDone (commit A w r)"
    using rw by simp
qed





theorem updateSetting_merges_and_saves_witness:
  "readSetting KFontSize (editorSettings (updateSetting (FontSize 16) exampleEditor)) = FontSize 16
   \<and> KIsBold \<noteq> keyOf (FontSize 16)
   \<and> readSetting KIsBold (editorSettings (updateSetting (FontSize 16) exampleEditor)) = IsBold False
   \<and> initialLoadDone exampleEditor
   \<and> writes (handle exampleAtoms (SettingsChanged [FontSize 16]) exampleEditor) =
       writes exampleEditor @
         [(''textEditorSettings_notes'', StoredSettings (exampleSettings\<lparr>fontSize := 16\<rparr>))]"
proof -
  note t = updateSetting_merges_and_saves [of "FontSize 16" exampleEditor exampleAtoms]
  from t have other: "KIsBold \<noteq> keyOf (FontSize 16) \<longrightarrow>
      readSetting KIsBold (editorSettings (updateSetting (FontSize 16) exampleEditor)) =
      readSetting KIsBold (editorSettings exampleEditor)"
    by blast
  from t other show ?thesis
    by (simp add: exampleEditor_simps settingsKey_def exampleAtoms_def exampleSettings_def)
qed

section \<open>Loading\<close>

lemma contentKey_inj: "contentKey A e1 = contentKey A e2 \<longleftrightarrow> e1 = e2"
  by (simp add: contentKey_def)

lemma settingsKey_inj: "settingsKey A e1 = settingsKey A e2 \<longleftrightarrow> e1 = e2"
  by (simp add: settingsKey_def)

text \<open>
  C4, as the code has it. The props default to the empty string and to \<open>default\<close>. After
  mounting, the content is the stored content when one is stored and is not empty; it is
  \<open>initialContent\<close> when none is stored and also when the stored content is the empty
  string. What was loaded is written back under the two keys of the instance, and keys
  of different editor identifiers differ.
\<close>

theorem load_content_or_initial:
  "(let eid = (case editorIdProp props of None \<Rightarrow> ''default'' | Some e \<Rightarrow> e);
        ic = (case initialContentProp props of None \<Rightarrow> [] | Some c \<Rightarrow> c);
        w = mount A props st
    in editorId w = eid \<and> initialContent w = ic
       \<and> (\<forall>c. st (contentKey A eid) = Some (StoredContent c) \<and> c \<noteq> [] \<longrightarrow> content w = c)
       \<and> (st (contentKey A eid) = Some (StoredContent []) \<longrightarrow> content w = ic)
       \<and> (st (contentKey A eid) = None \<longrightarrow> content w = ic)
       \<and> writes w = [(contentKey A eid, StoredContent (content w)),
                     (settingsKey A eid, StoredSettings (editorSettings w))])
   \<and> (\<forall>e1 e2. contentKey A e1 = contentKey A e2 \<longrightarrow> e1 = e2)
   \<and> (\<forall>e1 e2. settingsKey A e1 = settingsKey A e2 \<longrightarrow> e1 = e2)"
  using mount_writes [of A props st]
  by (simp add: Let_def mount_simps loadEditorContent_def contentKey_inj settingsKey_inj)

theorem load_content_or_initial_witness:
  "content (mount exampleAtoms exampleProps
      (Map.empty(''textEditorContent_notes'' \<mapsto> StoredContent ''draft''))) = ''draft''
   \<and> content (mount exampleAtoms exampleProps Map.empty) = ''hello''
   \<and> editorId (mount exampleAtoms \<lparr>initialContentProp = None, editorIdProp = None\<rparr> Map.empty)
       = ''default''
   \<and> content (mount exampleAtoms \<lparr>initialContentProp = None, editorIdProp = None\<rparr> Map.empty)
       = []"
proof -
  note a = load_content_or_initial [of exampleProps exampleAtoms
      "Map.empty(''textEditorContent_notes'' \<mapsto> StoredContent ''draft'')"]
  note b = load_content_or_initial [of exampleProps exampleAtoms Map.empty]
  note c = load_content_or_initial
      [of "\<lparr>initialContentProp = None, editorIdProp = None\<rparr>" exampleAtoms Map.empty]
  have 1: "content (mount exampleAtoms exampleProps
      (Map.empty(''textEditorContent_notes'' \<mapsto> StoredContent ''draft''))) = ''draft''"
    using a by (simp add: Let_def exampleProps_def contentKey_def exampleAtoms_def)
  have 2: "content (mount exampleAtoms exampleProps Map.empty) = ''hello''"
    using b by (simp add: Let_def exampleProps_def)
  have 3: "editorId (mount exampleAtoms \<lparr>initialContentProp = None, editorIdProp = None\<rparr> Map.empty)
       = ''default''
     \<and> content (mount exampleAtoms \<lparr>initialContentProp = None, editorIdProp = None\<rparr> Map.empty)
       = []"
    using c by (simp add: Let_def)
  from 1 2 3 show ?thesis by simp
qed

text \<open>
  Against C4 as stated: the empty string is stored for the instance (as it is after a
  confirmed clear), yet after mounting the content is \<open>initialContent\<close>, not the stored
  content.
\<close>

theorem stored_empty_content_counterexample:
  "loadEditorContent exampleAtoms
      (Map.empty(''textEditorContent_notes'' \<mapsto> StoredContent [])) ''notes'' = Some []
   \<and> content (mount exampleAtoms exampleProps
        (Map.empty(''textEditorContent_notes'' \<mapsto> StoredContent []))) = ''hello''"
  by (simp add: mount_simps loadEditorContent_def contentKey_def exampleAtoms_def
      exampleProps_def)


section \<open>The timers of a mounted editor\<close>


lemma timerOk_timeout:
  "timerOk n w t \<Longrightarrow> period t = None \<Longrightarrow>
   callback t = ClearStatus \<and> autoSaveTimerRef w \<noteq> Some (timerId t) \<and> due t \<le> now w + 2000"
  by (simp add: timerOk_def)

lemma timerOk_interval:
  "timerOk n w t \<Longrightarrow> period t = Some q \<Longrightarrow>
   0 < n \<and> q = nat (n * 1000) \<and> callback t = AutoSaved
   \<and> autoSaveTimerRef w = Some (timerId t) \<and> timerId t \<noteq> 0 \<and> due t \<le> now w + q"
  by (auto simp add: timerOk_def)

lemma timersOkFor_timer:
  "timersOkFor n w \<Longrightarrow> t \<in> set (timers w) \<Longrightarrow> timerOk n w t \<and> timerId t < nextTimerId w"
  by (simp add: timersOkFor_def)

lemma timersOkFor_timeouts:
  "timersOkFor n w \<Longrightarrow> n \<le> 0 \<Longrightarrow> t \<in> set (timers w) \<Longrightarrow> period t = None"
  using timerOk_interval [of n w t] timersOkFor_timer [of n w t]
  by (cases "period t") auto



lemma clearAutoSaveTimer_timers:
  assumes "timersOkFor n w"
  shows "timers (clearAutoSaveTimer w) = filter (\<lambda>t. period t = None) (timers w)"
proof (cases "autoSaveTimerRef w")
  case None
  have "period t = None" if "t \<in> set (timers w)" for t
    using timersOkFor_timer [OF assms that] timerOk_interval [of n w t] None
    by (cases "period t") auto
  then show ?thesis
    using None by (simp add: clearAutoSaveTimer_def)
next
  case (Some i)
  have iff: "timerId t \<noteq> i \<longleftrightarrow> period t = None" if "t \<in> set (timers w)" for t
    using timersOkFor_timer [OF assms that] timerOk_interval [of n w t]
      timerOk_timeout [of n w t] Some
    by (cases "period t") auto
  show ?thesis
  proof (cases "i = 0")
    case True
    have "period t = None" if "t \<in> set (timers w)" for t
      using timersOkFor_timer [OF assms that] timerOk_interval [of n w t] Some True
      by (cases "period t") auto
    then show ?thesis
      using Some True by (simp add: clearAutoSaveTimer_def)
  next
    case False
    have "filter (\<lambda>t. timerId t \<noteq> i) (timers w) = filter (\<lambda>t. period t = None) (timers w)"
      by (rule filter_cong) (simp_all add: iff)
    then show ?thesis
      using Some False by (simp add: clearAutoSaveTimer_def clearInterval_def)
  qed
qed

lemma timersOkFor_timeouts_only:
  assumes "timersOkFor n w" "timers v = filter (\<lambda>t. period t = None) (timers w)"
    "nextTimerId v = nextTimerId w" "autoSaveTimerRef v = autoSaveTimerRef w" "now v = now w"
  shows "timersOkFor 0 v"
proof -
  have "timerOk 0 v t" if "t \<in> set (timers v)" for t
  proof -
    have t: "t \<in> set (timers w)" "period t = None"
      using that assms(2) by simp_all
    have ok: "timerOk n w t"
      using timersOkFor_timer [OF assms(1) t(1)] by simp
    have "callback t = ClearStatus" "autoSaveTimerRef w \<noteq> Some (timerId t)"
      "due t \<le> now w + 2000"
      using timerOk_timeout [OF ok t(2)] by simp_all
    then show ?thesis
      using t(2) assms(4,5) by (simp add: timerOk_def)
  qed
  moreover have "distinct (map timerId (timers v))"
    using assms by (simp add: timersOkFor_def distinct_map_filter)
  ultimately show ?thesis
    using assms by (auto simp add: timersOkFor_def split: option.splits)
qed

lemma cleanup_ok:
  assumes "timersOkFor n w"
  shows "timersOkFor 0 (autoSaveEffectCleanup w)"
proof (cases "autoSaveCleanup w")
  case True
  then show ?thesis
    using timersOkFor_timeouts_only [OF assms, of "clearAutoSaveTimer w"] assms
    by (simp add: autoSaveEffectCleanup_def clearAutoSaveTimer_timers)
next
  case False
  then have "n \<le> 0"
    using assms by (auto simp add: timersOkFor_def)
  then have "filter (\<lambda>t. period t = None) (timers w) = timers w"
    using timersOkFor_timeouts [OF assms] by (simp add: filter_id_conv)
  then show ?thesis
    using timersOkFor_timeouts_only [OF assms, of w] False
    by (simp add: autoSaveEffectCleanup_def)
qed


lemma autoSaveEffect_off:
  assumes "\<not> initialLoadDone r \<or> autoSaveInterval (editorSettings r) \<le> 0"
  shows "timers (autoSaveEffect r w) = timers (clearAutoSaveTimer w)"
    and "nextTimerId (autoSaveEffect r w) = nextTimerId w"
    and "autoSaveTimerRef (autoSaveEffect r w) = autoSaveTimerRef w"
    and "autoSaveCleanup (autoSaveEffect r w) = False"
  using assms by (simp_all add: autoSaveEffect_def)

lemma autoSaveEffect_on:
  assumes "initialLoadDone r" "0 < autoSaveInterval (editorSettings r)"
  shows "timers (autoSaveEffect r w) = timers (clearAutoSaveTimer w) @
        [\<lparr>timerId = nextTimerId w, due = now w + nat (autoSaveInterval (editorSettings r) * 1000),
          period = Some (nat (autoSaveInterval (editorSettings r) * 1000)),
          callback = AutoSaved\<rparr>]"
    and "nextTimerId (autoSaveEffect r w) = Suc (nextTimerId w)"
    and "autoSaveTimerRef (autoSaveEffect r w) = Some (nextTimerId w)"
    and "autoSaveCleanup (autoSaveEffect r w) = True"
  using assms by (simp_all add: autoSaveEffect_def setInterval_def Let_def)




text \<open>A commit leaves the timers alone unless a dependency of the auto-save effect
  changed; if one changed, the old interval is cleared and one of the new length is
  armed.\<close>

lemma laterEffects_timers_same:
  assumes "autoSaveInterval (editorSettings r) = autoSaveInterval (editorSettings p)"
    "editorId r = editorId p" "initialLoadDone r = initialLoadDone p"
  shows "timers (laterEffects A p r w) = timers w"
    "nextTimerId (laterEffects A p r w) = nextTimerId w"
    "autoSaveTimerRef (laterEffects A p r w) = autoSaveTimerRef w"
    "autoSaveCleanup (laterEffects A p r w) = autoSaveCleanup w"
  using assms by (simp_all add: laterEffects_def Let_def)

lemma commit_timers_same:
  assumes "autoSaveInterval (editorSettings r) = autoSaveInterval (editorSettings p)"
    "editorId r = editorId p" "initialLoadDone r = initialLoadDone p"
  shows "timers (commit A p r) = timers r" "nextTimerId (commit A p r) = nextTimerId r"
    "autoSaveTimerRef (commit A p r) = autoSaveTimerRef r"
    "autoSaveCleanup (commit A p r) = autoSaveCleanup r"
  using assms by (simp_all add: commit_def laterEffects_timers_same)

lemma laterEffects_timers_changed:
  assumes "autoSaveInterval (editorSettings r) \<noteq> autoSaveInterval (editorSettings p)
    \<or> editorId r \<noteq> editorId p \<or> initialLoadDone r \<noteq> initialLoadDone p"
  shows "\<exists>v. timers v = timers w \<and> nextTimerId v = nextTimerId w
      \<and> autoSaveTimerRef v = autoSaveTimerRef w \<and> autoSaveCleanup v = autoSaveCleanup w
      \<and> now v = now w \<and> laterEffects A p r w = autoSaveEffect r (autoSaveEffectCleanup v)"
proof -
  let ?v = "(if settingsObject r \<noteq> settingsObject p \<or> editorId r \<noteq> editorId p
                   \<or> initialLoadDone r \<noteq> initialLoadDone p
             then saveSettingsEffect A r
                    (if content r \<noteq> content p \<or> editorId r \<noteq> editorId p
                        \<or> initialLoadDone r \<noteq> initialLoadDone p
                     then saveContentEffect A r w else w)
             else (if content r \<noteq> content p \<or> editorId r \<noteq> editorId p
                        \<or> initialLoadDone r \<noteq> initialLoadDone p
                     then saveContentEffect A r w else w))"
  have "laterEffects A p r w = autoSaveEffect r (autoSaveEffectCleanup ?v)"
    using assms by (simp add: laterEffects_def Let_def)
  moreover have "timers ?v = timers w" "nextTimerId ?v = nextTimerId w"
    "autoSaveTimerRef ?v = autoSaveTimerRef w" "autoSaveCleanup ?v = autoSaveCleanup w"
    "now ?v = now w"
    by simp_all
  ultimately show ?thesis
    by blast
qed

lemma commit_timers_changed:
  assumes "autoSaveInterval (editorSettings r) \<noteq> autoSaveInterval (editorSettings p)
    \<or> editorId r \<noteq> editorId p \<or> initialLoadDone r \<noteq> initialLoadDone p"
  shows "\<exists>v. timers v = timers r \<and> nextTimerId v = nextTimerId r
      \<and> autoSaveTimerRef v = autoSaveTimerRef r \<and> autoSaveCleanup v = autoSaveCleanup r
      \<and> now v = now r \<and> commit A p r = autoSaveEffect r (autoSaveEffectCleanup v)"
proof -
  let ?w = "if editorId r \<noteq> editorId p \<or> initialContent r \<noteq> initialContent p
            then loadEffect A r r else r"
  have w: "timers ?w = timers r" "nextTimerId ?w = nextTimerId r"
    "autoSaveTimerRef ?w = autoSaveTimerRef r" "autoSaveCleanup ?w = autoSaveCleanup r"
    "now ?w = now r"
    by simp_all
  from laterEffects_timers_changed [OF assms, of ?w A] show ?thesis
    unfolding w commit_def by simp
qed




section \<open>Firing timers\<close>


lemma fire_timeout:
  assumes "t \<in> set (timers w)" "period t = None" "callback t = ClearStatus"
  shows "fire A t w =
     setStatusMessage [] (w\<lparr>timers := filter (\<lambda>u. timerId u \<noteq> timerId t) (timers w)\<rparr>)"
  using assms by (simp add: fire_def runCallback_eq)




lemma intervals_none:
  assumes "timersOkFor n w" "n \<le> 0"
  shows "intervals w = []"
  using timersOkFor_timeouts [OF assms] by (simp add: intervals_def filter_empty_conv)







section \<open>Every reachable state has well-formed timers\<close>











section \<open>The auto-save timer\<close>




lemma intervals_autoSaveEffect:
  assumes "timersOkFor 0 v" "initialLoadDone r"
  shows "intervals (autoSaveEffect r v) =
     (if autoSaveInterval (editorSettings r) \<le> 0 then []
      else [\<lparr>timerId = nextTimerId v,
             due = now v + nat (autoSaveInterval (editorSettings r) * 1000),
             period = Some (nat (autoSaveInterval (editorSettings r) * 1000)),
             callback = AutoSaved\<rparr>])"
proof -
  have none: "filter (\<lambda>t. period t \<noteq> None) (timers v) = []"
    using intervals_none [OF assms(1)] by (simp add: intervals_def)
  have "filter (\<lambda>t. period t = None) (timers v) = timers v"
    using timersOkFor_timeouts [OF assms(1)] by (simp add: filter_id_conv)
  then have cl: "timers (clearAutoSaveTimer v) = timers v"
    using clearAutoSaveTimer_timers [OF assms(1)] by simp
  show ?thesis
  proof (cases "autoSaveInterval (editorSettings r) \<le> 0")
    case True
    then show ?thesis
      using none by (simp add: intervals_def autoSaveEffect_off cl)
  next
    case False
    then have "0 < autoSaveInterval (editorSettings r)"
      by simp
    from autoSaveEffect_on(1) [OF assms(2) this, of v] False none show ?thesis
      by (simp add: intervals_def cl)
  qed
qed




lemma mount_intervals:
  "intervals (mount A props st) =
     (if autoSaveInterval (editorSettings (mount A props st)) \<le> 0 then []
      else [\<lparr>timerId = 1,
             due = nat (autoSaveInterval (editorSettings (mount A props st)) * 1000),
             period = Some (nat (autoSaveInterval (editorSettings (mount A props st)) * 1000)),
             callback = AutoSaved\<rparr>])"
proof -
  let ?r = "firstRender A props st"
  let ?w = "mountEffects A ?r"
  have w: "timers ?w = []" "nextTimerId ?w = 1" "autoSaveTimerRef ?w = None" "now ?w = 0"
    by (simp_all add: mountEffects_unloaded clearAutoSaveTimer_def)
  have ch: "autoSaveInterval (editorSettings ?w) \<noteq> autoSaveInterval (editorSettings ?r)
    \<or> editorId ?w \<noteq> editorId ?r \<or> initialLoadDone ?w \<noteq> initialLoadDone ?r"
    by simp
  from commit_timers_changed [OF ch, of A]
  obtain v where v: "timers v = timers ?w" "nextTimerId v = nextTimerId ?w"
      "autoSaveTimerRef v = autoSaveTimerRef ?w" "autoSaveCleanup v = autoSaveCleanup ?w"
      "now v = now ?w" "commit A ?r ?w = autoSaveEffect ?w (autoSaveEffectCleanup v)"
    by blast
  have "timersOkFor 0 v"
    using v w by (simp add: timersOkFor_def)
  then have "timersOkFor 0 (autoSaveEffectCleanup v)"
    by (rule cleanup_ok)
  from intervals_autoSaveEffect [OF this, of ?w]
  have "intervals (autoSaveEffect ?w (autoSaveEffectCleanup v)) =
     (if autoSaveInterval (editorSettings ?w) \<le> 0 then []
      else [\<lparr>timerId = 1, due = nat (autoSaveInterval (editorSettings ?w) * 1000),
             period = Some (nat (autoSaveInterval (editorSettings ?w) * 1000)),
             callback = AutoSaved\<rparr>])"
    using v(2,5) w(2,4) by simp
  moreover have "editorSettings (mount A props st) = editorSettings ?w"
    by (simp add: mount_def Let_def)
  moreover have "mount A props st = autoSaveEffect ?w (autoSaveEffectCleanup v)"
    by (simp add: mount_def Let_def v(6))
  ultimately show ?thesis
    by (simp only:)
qed

lemma exampleEditor_intervals:
  "intervals exampleEditor =
     [\<lparr>timerId = 1, due = 5000, period = Some 5000, callback = AutoSaved\<rparr>]"
  using mount_intervals [of exampleAtoms exampleProps Map.empty]
  by (simp add: exampleEditor_simps exampleEditor_def [symmetric] exampleSettings_def)



section \<open>The store mirrors the editor\<close>

lemma keys_differ:
  "TEXT_EDITOR_STORAGE_KEY A \<noteq> TEXT_EDITOR_SETTINGS_KEY A \<Longrightarrow>
   contentKey A e \<noteq> settingsKey A e"
  by (simp add: contentKey_def settingsKey_def)

lemma storeOk_commit:
  assumes keys: "TEXT_EDITOR_STORAGE_KEY A \<noteq> TEXT_EDITOR_SETTINGS_KEY A"
    and r: "initialLoadDone r" "editorId r = editorId p" "initialContent r = initialContent p"
    and p: "initialLoadDone p \<longrightarrow>
      storeOk A p \<and> store r = store p
      \<and> (settingsObject r = settingsObject p \<longrightarrow> editorSettings r = editorSettings p)"
  shows "storeOk A (commit A p r)"
proof -
  note k = keys_differ [OF keys, of "editorId p"]
  show ?thesis
  proof (cases "initialLoadDone p")
    case False
    then show ?thesis
      using r k by (simp add: storeOk_def commit_store Let_def)
  next
    case True
    then have ok: "store p (contentKey A (editorId p)) = Some (StoredContent (content p))"
      "store p (settingsKey A (editorId p)) = Some (StoredSettings (editorSettings p))"
      and st: "store r = store p"
      and so: "settingsObject r = settingsObject p \<longrightarrow> editorSettings r = editorSettings p"
      using p by (simp_all add: storeOk_def)
    show ?thesis
      using True r k k [symmetric] ok so
      by (auto simp add: storeOk_def commit_store st Let_def)
  qed
qed

lemma props_storeOk:
  assumes keys: "TEXT_EDITOR_STORAGE_KEY A \<noteq> TEXT_EDITOR_SETTINGS_KEY A"
    and w: "initialLoadDone w" "storeOk A w"
  shows "storeOk A (handle A (PropsChanged props) w)"
proof -
  define r where "r = applyProps props w"
  define v where "v = commit A w r"
  note f = props_first_commit [OF w(1) r_def, of A, folded v_def]
  note k = keys_differ [OF keys, of "editorId r"]
  have rw: "content r = content w" "settingsObject r = settingsObject w" "initialLoadDone r"
    using w(1) by (simp_all add: r_def)
  have vr: "editorId v = editorId r" "initialContent v = initialContent r"
    by (simp_all add: v_def)
  have ok: "store w (contentKey A (editorId w)) = Some (StoredContent (content w))"
    "store w (settingsKey A (editorId w)) = Some (StoredSettings (editorSettings w))"
    using w(2) by (simp_all add: storeOk_def)
  have st: "store (commit A r v) =
     (let s1 = (if content v \<noteq> content w
                then (store v)(contentKey A (editorId r) \<mapsto> StoredContent (content v))
                else store v)
      in if settingsObject v \<noteq> settingsObject w
         then s1(settingsKey A (editorId r) \<mapsto> StoredSettings (editorSettings v))
         else s1)"
    using vr f(6) rw by (simp add: commit_store Let_def)
  have hooks: "content (commit A r v) = content v"
    "editorSettings (commit A r v) = editorSettings v" "editorId (commit A r v) = editorId r"
    using vr by simp_all
  have "storeOk A (commit A r v)"
  proof (cases "editorId r \<noteq> editorId w")
    case True
    then show ?thesis
      unfolding storeOk_def hooks st Let_def f(2) f(3) f(4) f(5)
      using k k [symmetric] by auto
  next
    case False
    then have e: "editorId r = editorId w"
      by simp
    show ?thesis
      unfolding storeOk_def hooks st Let_def f(2) f(3) f(4) f(5)
      using e k k [symmetric] ok
      by (auto simp add: loadEditorSettings_def loadEditorContent_def)
  qed
  then show ?thesis
    by (simp add: Let_def r_def v_def)
qed

lemma handle_storeOk:
  assumes keys: "TEXT_EDITOR_STORAGE_KEY A \<noteq> TEXT_EDITOR_SETTINGS_KEY A"
    and w: "initialLoadDone w" "storeOk A w"
  shows "storeOk A (handle A ev w)"
proof -
  have step: "storeOk A (commit A w r)"
    if "initialLoadDone r" "editorId r = editorId w" "initialContent r = initialContent w"
      "store r = store w"
      "settingsObject r = settingsObject w \<longrightarrow> editorSettings r = editorSettings w" for r
    using that w by (intro storeOk_commit [OF keys]) simp_all
  show ?thesis
  proof (cases ev)
    case (ContentChanged new)
    then show ?thesis using w(1) by (simp add: step)
  next
    case (SettingsChanged kvs)
    have "settingsObject (fold updateSetting kvs w) = settingsObject w \<longrightarrow>
        editorSettings (fold updateSetting kvs w) = editorSettings w"
    proof (cases "kvs = []")
      case True
      then show ?thesis by simp
    next
      case False
      then have "settingsObject (fold updateSetting kvs w) \<noteq> settingsObject w"
        using fold_updateSetting_settings(2) [of kvs w] by simp
      then show ?thesis by simp
    qed
    then show ?thesis using w(1) SettingsChanged by (simp add: step)
  next
    case SaveClicked
    then show ?thesis using w(1) by (simp add: step)
  next
    case CopyClicked
    then show ?thesis using w(1) by (simp add: step)
  next
    case (ClearClicked c)
    then show ?thesis using w(1) by (simp add: step)
  next
    case (KeyDown e sel)
    then show ?thesis using w(1) by (simp add: step)
  next
    case (WriteTextSettled i ok)
    then show ?thesis using w(1) by (simp add: step)
  next
    case Millisecond
    then show ?thesis using w(2) by (simp add: storeOk_def)
  next
    case (PropsChanged props)
    then show ?thesis using props_storeOk [OF keys w] by simp
  next
    case (ClipboardApi b)
    then show ?thesis using w(2) by (simp add: storeOk_def)
  qed
qed

lemma mount_storeOk:
  "TEXT_EDITOR_STORAGE_KEY A \<noteq> TEXT_EDITOR_SETTINGS_KEY A \<Longrightarrow> storeOk A (mount A props st)"
  unfolding mount_def Let_def by (rule storeOk_commit) simp_all

lemma run_storeOk:
  "TEXT_EDITOR_STORAGE_KEY A \<noteq> TEXT_EDITOR_SETTINGS_KEY A \<Longrightarrow> initialLoadDone w \<Longrightarrow>
   storeOk A w \<Longrightarrow> storeOk A (run A evs w)"
  unfolding run_def
proof (induction evs arbitrary: w)
  case Nil
  then show ?case by simp
next
  case (Cons ev evs)
  have "storeOk A (handle A ev w)" "initialLoadDone (handle A ev w)"
    using Cons.prems handle_storeOk by simp_all
  then show ?case
    using Cons.IH Cons.prems(1) by simp
qed

lemma reachable_storeOk:
  "TEXT_EDITOR_STORAGE_KEY A \<noteq> TEXT_EDITOR_SETTINGS_KEY A \<Longrightarrow>
   storeOk A (run A evs (mount A props st))"
  by (rule run_storeOk) (simp_all add: mount_simps mount_storeOk)

text \<open>
  C6. In every state that a mounted editor reaches (the two key constants being
  different): when the confirmation is declined, \<open>clearText()\<close> changes nothing at all;
  when it is confirmed, the content becomes the empty string, the store holds the empty
  string under the content key (written by the save content effect, once, unless the
  content was empty and stored as such already), and the settings record is the same in
  memory and in the store.
\<close>

theorem clearText_contract:
  assumes "TEXT_EDITOR_STORAGE_KEY A \<noteq> TEXT_EDITOR_SETTINGS_KEY A"
  shows "(let w = run A evs (mount A props st);
              declined = handle A (ClearClicked False) w;
              confirmed = handle A (ClearClicked True) w
          in declined = w
             \<and> content confirmed = []
             \<and> store confirmed (contentKey A (editorId w)) = Some (StoredContent [])
             \<and> writes confirmed =
                 writes w @ (if content w = [] then []
                             else [(contentKey A (editorId w), StoredContent [])])
             \<and> editorSettings confirmed = editorSettings w
             \<and> store confirmed (settingsKey A (editorId w)) =
                 Some (StoredSettings (editorSettings w))
             \<and> store w (settingsKey A (editorId w)) = Some (StoredSettings (editorSettings w))
             \<and> statusMessage confirmed = ''All text cleared'')"
proof -
  define w where "w = run A evs (mount A props st)"
  have loaded: "initialLoadDone w"
    unfolding w_def by (simp add: mount_simps)
  have ok: "storeOk A w"
    unfolding w_def by (rule reachable_storeOk [OF assms])
  have ok': "storeOk A (handle A (ClearClicked True) w)"
    by (rule handle_storeOk [OF assms loaded ok])
  have no: "handle A (ClearClicked False) w = w"
    by (simp add: handleClearText_def commit_unchanged)
  have c: "content (handle A (ClearClicked True) w) = []"
    "editorSettings (handle A (ClearClicked True) w) = editorSettings w"
    "statusMessage (handle A (ClearClicked True) w) = ''All text cleared''"
    by (simp_all add: handleClearText_def setContent_def)
  have wr: "writes (handle A (ClearClicked True) w) =
      writes w @ (if content w = [] then []
                  else [(contentKey A (editorId w), StoredContent [])])"
    using loaded by (auto simp add: commit_writes handleClearText_def setContent_def)
  show ?thesis
    unfolding Let_def w_def [symmetric]
    using no c wr ok ok' by (simp add: storeOk_def)
qed

theorem clearText_contract_witness:
  "TEXT_EDITOR_STORAGE_KEY exampleAtoms \<noteq> TEXT_EDITOR_SETTINGS_KEY exampleAtoms
   \<and> content exampleEditor = ''hello''
   \<and> handle exampleAtoms (ClearClicked False) exampleEditor = exampleEditor
   \<and> content (handle exampleAtoms (ClearClicked True) exampleEditor) = []
   \<and> store (handle exampleAtoms (ClearClicked True) exampleEditor) ''textEditorContent_notes''
       = Some (StoredContent [])
   \<and> store (handle exampleAtoms (ClearClicked True) exampleEditor) ''textEditorSettings_notes''
       = Some (StoredSettings exampleSettings)
   \<and> writes (handle exampleAtoms (ClearClicked True) exampleEditor) =
       writes exampleEditor @ [(''textEditorContent_notes'', StoredContent [])]"
proof -
  have k: "TEXT_EDITOR_STORAGE_KEY exampleAtoms \<noteq> TEXT_EDITOR_SETTINGS_KEY exampleAtoms"
    by (simp add: exampleAtoms_def)
  have e: "run exampleAtoms [] (mount exampleAtoms exampleProps Map.empty) = exampleEditor"
    by (simp add: run_def exampleEditor_def)
  from clearText_contract [OF k, of "[]" exampleProps Map.empty, unfolded Let_def e] k
  show ?thesis
    by (simp add: exampleEditor_simps contentKey_def settingsKey_def exampleAtoms_def)
qed


section \<open>Overlapping status messages\<close>

lemma tick_idle:
  assumes "\<forall>t\<in>set (timers w). Suc (now w) < due t"
  shows "tick A w = w\<lparr>now := Suc (now w)\<rparr>"
proof -
  have "filter (\<lambda>t. due t \<le> Suc (now w)) (timers w) = []"
    using assms by (auto simp add: filter_empty_conv)
  then show ?thesis
    by (simp add: tick_def Let_def)
qed

lemma advance_idle:
  "\<forall>t\<in>set (timers w). now w + m < due t \<Longrightarrow> advance A m w = w\<lparr>now := now w + m\<rparr>"
proof (induction m arbitrary: w)
  case 0
  then show ?case by simp
next
  case (Suc m)
  have "tick A w = w\<lparr>now := Suc (now w)\<rparr>"
    using Suc.prems by (intro tick_idle) auto
  moreover have "advance A m (w\<lparr>now := Suc (now w)\<rparr>)
      = (w\<lparr>now := Suc (now w)\<rparr>)\<lparr>now := now (w\<lparr>now := Suc (now w)\<rparr>) + m\<rparr>"
    using Suc.prems by (intro Suc.IH) auto
  ultimately show ?case
    by simp
qed

text \<open>
  Two status clearings \<open>ta\<close> and \<open>tb\<close> are the last pending timers, \<open>ta\<close> due first
  and before every other timer: until \<open>ta\<close> is due nothing happens, and when it is due
  the message is blanked, whichever message it is.
\<close>

lemma overlap_core:
  assumes tm: "timers v = old @ [ta, tb]"
    and ta: "period ta = None" "callback ta = ClearStatus"
    and later: "\<forall>t\<in>set old. due ta < due t" "due ta < due tb"
    and before: "now v < due ta"
  shows "e < due ta - now v \<Longrightarrow> advance A e v = v\<lparr>now := now v + e\<rparr>"
    and "statusMessage (advance A (due ta - now v) v) = []"
    and "now (advance A (due ta - now v) v) = due ta"
proof -
  show idle: "advance A e v = v\<lparr>now := now v + e\<rparr>" if "e < due ta - now v" for e
    using that later by (intro advance_idle) (auto simp add: tm)
  show "now (advance A (due ta - now v) v) = due ta"
    using before by simp
  obtain k where k: "due ta - now v = Suc k"
    using before by (cases "due ta - now v") simp_all
  let ?u = "v\<lparr>now := now v + k\<rparr>"
  have u: "advance A k v = ?u"
    using k by (intro idle) simp
  have nu: "Suc (now v + k) = due ta"
    using k by simp
  let ?u1 = "?u\<lparr>now := Suc (now ?u)\<rparr>"
  have "filter (\<lambda>t. due t \<le> due ta) old = []"
    using later(1) by (auto simp add: filter_empty_conv)
  then have due_list: "filter (\<lambda>t. due t \<le> Suc (now v + k)) (timers v) = [ta]"
    using later(2) by (simp add: tm nu)
  have "ta \<in> set (timers ?u1)"
    by (simp add: tm)
  from fire_timeout [OF this ta, of A]
  have "statusMessage (fire A ta ?u1) = []"
    by (simp add: setStatusMessage_def)
  then have "statusMessage (tick A ?u) = []"
    by (simp add: tick_def Let_def due_list)
  then show "statusMessage (advance A (due ta - now v) v) = []"
    unfolding k advance_Suc_right u .
qed

text \<open>
  C3, as the code has it. \<open>showStatusMessage\<close> drops the identifier that \<open>setTimeout\<close>
  returns, so no clearing is ever cancelled: after messages A and B set \<open>d\<close> milliseconds
  apart, \<open>0 < d < 2000\<close>, both clearings are pending. With no other timer due within
  two seconds of A, the display shows B until A's two-second mark and is blanked there
  by A's timer, \<open>2000 - d\<close> milliseconds after B was set, \<open>d\<close> milliseconds before B's
  own mark.
\<close>

theorem status_messages_overlap:
  assumes "\<forall>t\<in>set (timers w). now w + 2000 < due t" and "0 < d" and "d < 2000"
  shows "(let shownB = showStatusMessage b (advance A d (showStatusMessage a w))
          in timers shownB =
               timers w @
                 [\<lparr>timerId = nextTimerId w, due = now w + 2000, period = None,
                    callback = ClearStatus\<rparr>,
                  \<lparr>timerId = Suc (nextTimerId w), due = now w + d + 2000, period = None,
                    callback = ClearStatus\<rparr>]
             \<and> now shownB = now w + d
             \<and> (\<forall>e<2000 - d. statusMessage (advance A e shownB) = b)
             \<and> statusMessage (advance A (2000 - d) shownB) = []
             \<and> now (advance A (2000 - d) shownB) = now w + 2000)"
proof -
  let ?ta = "\<lparr>timerId = nextTimerId w, due = now w + 2000, period = None,
               callback = ClearStatus\<rparr>"
  let ?tb = "\<lparr>timerId = Suc (nextTimerId w), due = now w + d + 2000, period = None,
               callback = ClearStatus\<rparr>"
  let ?w1 = "showStatusMessage a w"
  have "advance A d ?w1 = ?w1\<lparr>now := now ?w1 + d\<rparr>"
    using assms by (intro advance_idle) auto
  then have w2: "advance A d ?w1 = ?w1\<lparr>now := now w + d\<rparr>"
    by simp
  define v where "v = showStatusMessage b (advance A d (showStatusMessage a w))"
  have tm: "timers v = timers w @ [?ta, ?tb]"
    and nv: "now v = now w + d" and sv: "statusMessage v = b"
    unfolding v_def w2 by (simp_all add: showStatusMessage_def setTimeout_def setStatusMessage_def)
  have later: "\<forall>t\<in>set (timers w). due ?ta < due t" "due ?ta < due ?tb"
    using assms by simp_all
  have before: "now v < due ?ta"
    using assms by (simp add: nv)
  have ta: "period ?ta = None" "callback ?ta = ClearStatus"
    by simp_all
  note c = overlap_core [OF tm ta later before, where A = A]
  have gap: "due ?ta - now v = 2000 - d"
    using assms by (simp add: nv)
  have shown: "statusMessage (advance A e v) = b" if "e < 2000 - d" for e
  proof -
    have "advance A e v = v\<lparr>now := now v + e\<rparr>"
      using that c(1) [of e] unfolding gap by simp
    then show ?thesis
      by (simp add: sv)
  qed
  have "statusMessage (advance A (2000 - d) v) = []"
    using c(2) unfolding gap .
  moreover have "now (advance A (2000 - d) v) = now w + 2000"
    using assms by (simp add: nv)
  ultimately have "statusMessage (advance A (2000 - d) v) = []"
    "now (advance A (2000 - d) v) = now w + 2000"
    by simp_all
  then show ?thesis
    unfolding Let_def v_def [symmetric] using tm nv shown by simp
qed

lemma mount_timers: "timers (mount A props st) = intervals (mount A props st)"
proof -
  let ?r = "firstRender A props st"
  let ?w = "mountEffects A ?r"
  have w: "timers ?w = []"
    by (simp add: mountEffects_unloaded clearAutoSaveTimer_def)
  have ch: "autoSaveInterval (editorSettings ?w) \<noteq> autoSaveInterval (editorSettings ?r)
    \<or> editorId ?w \<noteq> editorId ?r \<or> initialLoadDone ?w \<noteq> initialLoadDone ?r"
    by simp
  from commit_timers_changed [OF ch, of A]
  obtain v where v: "timers v = timers ?w"
      "commit A ?r ?w = autoSaveEffect ?w (autoSaveEffectCleanup v)"
    by blast
  let ?x = "autoSaveEffectCleanup v"
  have x: "timers ?x = []"
    using v(1) w
    by (simp add: autoSaveEffectCleanup_def clearAutoSaveTimer_def clearInterval_def
        split: option.splits)
  then have cx: "timers (clearAutoSaveTimer ?x) = []"
    by (simp add: clearAutoSaveTimer_def clearInterval_def split: option.splits)
  have "timers (autoSaveEffect ?w ?x) = intervals (autoSaveEffect ?w ?x)"
  proof (cases "\<not> initialLoadDone ?w \<or> autoSaveInterval (editorSettings ?w) \<le> 0")
    case True
    from autoSaveEffect_off(1) [OF this, of ?x] show ?thesis
      by (simp add: intervals_def cx)
  next
    case False
    then have "initialLoadDone ?w" "0 < autoSaveInterval (editorSettings ?w)"
      by simp_all
    from autoSaveEffect_on(1) [OF this, of ?x] show ?thesis
      by (simp add: intervals_def cx)
  qed
  then show ?thesis
    by (simp add: mount_def Let_def v(2))
qed

lemma exampleEditor_timers:
  "timers exampleEditor = [\<lparr>timerId = 1, due = 5000, period = Some 5000, callback = AutoSaved\<rparr>]"
  using mount_timers [of exampleAtoms exampleProps Map.empty]
  by (simp add: exampleEditor_def [symmetric] exampleEditor_intervals)

theorem status_messages_overlap_witness:
  "timers exampleEditor =
     [\<lparr>timerId = 1, due = 5000, period = Some 5000, callback = AutoSaved\<rparr>]
   \<and> now exampleEditor = 0
   \<and> (let shownB = showStatusMessage ''B'' (advance exampleAtoms 500 (showStatusMessage ''A'' exampleEditor))
      in now shownB = 500
         \<and> statusMessage (advance exampleAtoms 1499 shownB) = ''B''
         \<and> statusMessage (advance exampleAtoms 1500 shownB) = []
         \<and> now (advance exampleAtoms 1500 shownB) = 2000)"
proof -
  have quiet: "\<forall>t\<in>set (timers exampleEditor). now exampleEditor + 2000 < due t"
    by (simp add: exampleEditor_timers exampleEditor_simps)
  have "(0::nat) < 500" "(500::nat) < 2000"
    by simp_all
  from status_messages_overlap [OF quiet this, where b = "''B''" and A = exampleAtoms and a = "''A''"]
  have "(let shownB = showStatusMessage ''B'' (advance exampleAtoms 500 (showStatusMessage ''A'' exampleEditor))
      in now shownB = 500
         \<and> statusMessage (advance exampleAtoms 1499 shownB) = ''B''
         \<and> statusMessage (advance exampleAtoms 1500 shownB) = []
         \<and> now (advance exampleAtoms 1500 shownB) = 2000)"
    unfolding Let_def by (simp add: exampleEditor_simps)
  then show ?thesis
    by (simp add: exampleEditor_timers exampleEditor_simps)
qed

text \<open>
  The race on the example editor: ``Content saved to file'' is shown at time 0 and
  ``All text cleared'' at time 1000; the display is blank at time 2000, one second
  after the second message was set, and the first message's timer is still pending
  when the second is shown.
\<close>

theorem status_cleared_early_counterexample:
  "(let shownA = handle exampleAtoms SaveClicked exampleEditor;
        shownB = handle exampleAtoms (ClearClicked True) (advance exampleAtoms 1000 shownA)
    in statusMessage shownA = ''Content saved to file''
       \<and> now shownA = 0
       \<and> statusMessage shownB = ''All text cleared''
       \<and> now shownB = 1000
       \<and> length (filter (\<lambda>t. callback t = ClearStatus) (timers shownB)) = 2
       \<and> statusMessage (advance exampleAtoms 999 shownB) = ''All text cleared''
       \<and> statusMessage (advance exampleAtoms 1000 shownB) = []
       \<and> now (advance exampleAtoms 1000 shownB) = 2000)"
proof -
  let ?i = "\<lparr>timerId = 1, due = 5000, period = Some 5000, callback = AutoSaved\<rparr>"
  let ?ta = "\<lparr>timerId = nextTimerId exampleEditor, due = 2000, period = None,
               callback = ClearStatus\<rparr>"
  let ?tb = "\<lparr>timerId = Suc (nextTimerId exampleEditor), due = 3000, period = None,
               callback = ClearStatus\<rparr>"
  define shownA where "shownA = handle exampleAtoms SaveClicked exampleEditor"
  define u where "u = advance exampleAtoms 1000 shownA"
  define shownB where "shownB = handle exampleAtoms (ClearClicked True) u"
  have a: "timers shownA = [?i, ?ta]" "now shownA = 0"
    "statusMessage shownA = ''Content saved to file''"
    "nextTimerId shownA = Suc (nextTimerId exampleEditor)"
    "editorId shownA = ''notes''" "initialLoadDone shownA"
    unfolding shownA_def
    by (simp_all add: commit_timers_same handleSaveToFile_def showStatusMessage_def
        setTimeout_def setStatusMessage_def exampleEditor_timers exampleEditor_simps)
  have "advance exampleAtoms 1000 shownA = shownA\<lparr>now := now shownA + 1000\<rparr>"
    by (intro advance_idle) (simp add: a)
  then have u: "u = shownA\<lparr>now := 1000\<rparr>"
    by (simp add: u_def a)
  have b: "timers shownB = [?i] @ [?ta, ?tb]" "now shownB = 1000"
    "statusMessage shownB = ''All text cleared''"
    unfolding shownB_def
    by (simp_all add: commit_timers_same handleClearText_def showStatusMessage_def
        setTimeout_def setStatusMessage_def setContent_def u a)
  have ta: "period ?ta = None" "callback ?ta = ClearStatus"
    by simp_all
  have later: "\<forall>t\<in>set [?i]. due ?ta < due t" "due ?ta < due ?tb"
    by simp_all
  have before: "now shownB < due ?ta"
    by (simp add: b)
  note c = overlap_core [OF b(1) ta later before, where A = exampleAtoms]
  have gap: "due ?ta - now shownB = 1000"
    by (simp add: b)
  have "advance exampleAtoms 999 shownB = shownB\<lparr>now := now shownB + 999\<rparr>"
    using c(1) [of 999] unfolding gap by simp
  then have s1: "statusMessage (advance exampleAtoms 999 shownB) = ''All text cleared''"
    by (simp add: b)
  have s2: "statusMessage (advance exampleAtoms 1000 shownB) = []"
    using c(2) unfolding gap .
  have s3: "now (advance exampleAtoms 1000 shownB) = 2000"
    by (simp add: b)
  have s4: "length (filter (\<lambda>t. callback t = ClearStatus) (timers shownB)) = 2"
    by (simp add: b)
  show ?thesis
    unfolding Let_def u_def [symmetric] shownA_def [symmetric] shownB_def [symmetric]
    using a(2,3) b(2,3) s1 s2 s3 s4 by simp
qed

end
